theory Spec2Isabelle
  imports Complex_Main "HOL-Library.Sublist"
begin

section \<open>JavaScript values used by the funding-rate pipeline\<close>

text \<open>
  The repository holds two variants of the pipeline: \<^verbatim>\<open>src/api/funding-rates.js\<close> (four-method
  interval inference, per-source timeouts, comparison table) and the file kept as
  \<^verbatim>\<open>src/unnamed/part_000\<close> (timestamp pair, history, constant default; batches run
  concurrently; one list sorted by rate). Definitions of the second variant carry the suffix
  \<open>_part000\<close>.

  A JavaScript number is modelled by a real: arithmetic is exact, binary floating-point rounding
  is left out. An optional number is a \<open>real option\<close>, where \<open>None\<close> stands for
  \<^verbatim>\<open>undefined\<close>, \<^verbatim>\<open>null\<close> and \<^verbatim>\<open>NaN\<close>, which the code never tells apart on these fields.
  A string produced by \<^verbatim>\<open>toFixed(6)\<close> is represented by the number it denotes (what
  \<^verbatim>\<open>parseFloat\<close> reads back), and an ISO-8601 datetime string by the instant it denotes.
\<close>

definition truthy :: "real option \<Rightarrow> bool" where
  "truthy v = (case v of None \<Rightarrow> False | Some x \<Rightarrow> x \<noteq> 0)"

definition truthy_int :: "int option \<Rightarrow> bool" where
  "truthy_int v = (case v of None \<Rightarrow> False | Some x \<Rightarrow> x \<noteq> 0)"

text \<open>\<^verbatim>\<open>a || b\<close> on optional numbers.\<close>

definition js_or :: "real option \<Rightarrow> real option \<Rightarrow> real option" where
  "js_or a b = (if truthy a then a else b)"

text \<open>\<^verbatim>\<open>Math.round\<close>: the nearest integer, a tie going up.\<close>

definition Math_round :: "real \<Rightarrow> int" where
  "Math_round x = \<lfloor>x + 1 / 2\<rfloor>"

text \<open>
  \<^verbatim>\<open>x.toFixed(6)\<close>: the sign is split off, then the nearest multiple of \<open>10\<^sup>-\<^sup>6\<close> is taken, the
  larger one on a tie.
\<close>

definition toFixed6 :: "real \<Rightarrow> real" where
  "toFixed6 x =
     (if x < 0 then - (real_of_int \<lfloor>(- x) * 10 ^ 6 + 1 / 2\<rfloor> / 10 ^ 6)
      else real_of_int \<lfloor>x * 10 ^ 6 + 1 / 2\<rfloor> / 10 ^ 6)"

text \<open>\<^verbatim>\<open>parseFloat(s) || 0\<close> on a rate field: \<^verbatim>\<open>null\<close> parses to \<^verbatim>\<open>NaN\<close>, which is falsy.\<close>

definition rate_or_zero :: "real option \<Rightarrow> real" where
  "rate_or_zero r = (case r of None \<Rightarrow> 0 | Some x \<Rightarrow> x)"

subsection \<open>Strings\<close>

text \<open>\<^verbatim>\<open>s.includes(p)\<close>, \<^verbatim>\<open>s.startsWith(p)\<close>, \<^verbatim>\<open>s.replace(p, r)\<close> with a string pattern (the
  first occurrence only), \<^verbatim>\<open>s.split(':')[0]\<close> and \<^verbatim>\<open>s.toUpperCase()\<close> on ASCII letters.\<close>

fun str_includes :: "string \<Rightarrow> string \<Rightarrow> bool" where
  "str_includes [] p = (p = [])"
| "str_includes (c # cs) p = (prefix p (c # cs) \<or> str_includes cs p)"

definition startsWith :: "string \<Rightarrow> string \<Rightarrow> bool" where
  "startsWith s p = prefix p s"

fun str_replace :: "string \<Rightarrow> string \<Rightarrow> string \<Rightarrow> string" where
  "str_replace [] p r = (if p = [] then r else [])"
| "str_replace (c # cs) p r =
     (if prefix p (c # cs) then r @ drop (length p) (c # cs) else c # str_replace cs p r)"

definition split_colon_first :: "string \<Rightarrow> string" where
  "split_colon_first s = takeWhile (\<lambda>c. c \<noteq> CHR '':'') s"

definition toUpperCase_char :: "char \<Rightarrow> char" where
  "toUpperCase_char c =
     (let n = (of_char c :: nat) in if 97 \<le> n \<and> n \<le> 122 then char_of (n - 32) else c)"

definition toUpperCase :: "string \<Rightarrow> string" where
  "toUpperCase s = map toUpperCase_char s"

subsection \<open>Datetime strings\<close>

text \<open>
  \<open>ISO t\<close> is a text that \<^verbatim>\<open>Date\<close> reads as the instant \<open>t\<close> (milliseconds since the epoch),
  such as the one \<^verbatim>\<open>new Date(t).toISOString()\<close> writes; \<open>Unparseable s\<close> is the text \<open>s\<close>
  that \<^verbatim>\<open>Date\<close> cannot read, on which \<^verbatim>\<open>new Date(s).getTime()\<close> is \<^verbatim>\<open>NaN\<close>.
\<close>

datatype datetime = ISO real | Unparseable string

fun Date_getTime :: "datetime option \<Rightarrow> real option" where
  "Date_getTime (Some (ISO t)) = Some t"
| "Date_getTime (Some (Unparseable s)) = None"
| "Date_getTime None = None"

fun truthy_str :: "datetime option \<Rightarrow> bool" where
  "truthy_str (Some (ISO t)) = True"
| "truthy_str (Some (Unparseable s)) = (s \<noteq> [])"
| "truthy_str None = False"

definition str_or :: "datetime option \<Rightarrow> datetime option \<Rightarrow> datetime option" where
  "str_or a b = (if truthy_str a then a else b)"

definition toISOString :: "real \<Rightarrow> datetime" where
  "toISOString t = ISO t"

subsection \<open>Promises and exceptions\<close>

text \<open>A call of an exchange capability either returns a value or throws.\<close>

datatype 'a outcome = Returns 'a | Throws

subsection \<open>Sorting with a comparator\<close>

text \<open>
  \<^verbatim>\<open>Array.prototype.sort(cmp)\<close> is a stable sort. \<open>insert_by\<close> puts an element in front of the
  first element that does not precede it, so among elements that compare equal the order of the
  array is kept.
\<close>

fun insert_by :: "('a \<Rightarrow> 'a \<Rightarrow> real) \<Rightarrow> 'a \<Rightarrow> 'a list \<Rightarrow> 'a list" where
  "insert_by cmp x [] = [x]"
| "insert_by cmp x (y # ys) = (if cmp x y \<le> 0 then x # y # ys else y # insert_by cmp x ys)"

definition sort_by :: "('a \<Rightarrow> 'a \<Rightarrow> real) \<Rightarrow> 'a list \<Rightarrow> 'a list" where
  "sort_by cmp xs = foldr (insert_by cmp) xs []"

text \<open>
  \<^verbatim>\<open>localeCompare\<close> depends on the collation of the runtime and is a parameter of the adapters.
  The language specification asks of it what \<open>consistent_comparator\<close> says.
\<close>

definition consistent_comparator :: "(string \<Rightarrow> string \<Rightarrow> real) \<Rightarrow> bool" where
  "consistent_comparator lc =
     ((\<forall>a b. lc a b \<le> 0 \<or> lc b a \<le> 0) \<and>
      (\<forall>a b c. lc a b \<le> 0 \<and> lc b c \<le> 0 \<longrightarrow> lc a c \<le> 0))"

text \<open>A concrete comparator: code-unit order, the shorter string first.\<close>

fun code_unit_compare :: "string \<Rightarrow> string \<Rightarrow> real" where
  "code_unit_compare [] [] = 0"
| "code_unit_compare [] (y # ys) = - 1"
| "code_unit_compare (x # xs) [] = 1"
| "code_unit_compare (x # xs) (y # ys) =
     (if (of_char x :: nat) < of_char y then - 1
      else if (of_char y :: nat) < of_char x then 1
      else code_unit_compare xs ys)"

section \<open>Interval Calculator\<close>

text \<open>
  \<^verbatim>\<open>calculateFundingInterval\<close> (the same in both files). The guard
  \<^verbatim>\<open>!currentTime || !nextTime\<close> is true of a missing value and of the number 0.
\<close>

fun calculateFundingInterval :: "real option \<Rightarrow> real option \<Rightarrow> int option" where
  "calculateFundingInterval (Some currentTime) (Some nextTime) =
     (if currentTime = 0 \<or> nextTime = 0 then None
      else let diffMs = nextTime - currentTime;
               diffHours = diffMs / (1000 * 60 * 60)
           in Some (Math_round diffHours))"
| "calculateFundingInterval _ _ = None"

text \<open>
  \<^verbatim>\<open>getFundingIntervalForSymbol\<close>: the two most recent settlement events of the history; a
  thrown error is swallowed. A history is the list of the events' timestamps.
\<close>

type_synonym history_api = "string \<Rightarrow> real option list option outcome"

definition getFundingIntervalForSymbol :: "history_api \<Rightarrow> string \<Rightarrow> int option" where
  "getFundingIntervalForSymbol fetchFundingRateHistory symb =
     (case fetchFundingRateHistory symb of
        Returns (Some fundingHistory) \<Rightarrow>
          (if length fundingHistory \<ge> 2
           then calculateFundingInterval (fundingHistory ! 0) (fundingHistory ! 1)
           else None)
      | Returns None \<Rightarrow> None
      | Throws \<Rightarrow> None)"

section \<open>Records\<close>

text \<open>What \<^verbatim>\<open>exchange.fetchFundingRates()\<close> holds for one instrument. The rate is the one
  field on which the code tells \<^verbatim>\<open>undefined\<close> from \<^verbatim>\<open>null\<close>.\<close>

datatype js_rate = Undefined | Null | Num real

record funding_info =
  fi_fundingRate :: js_rate
  fi_fundingTimestamp :: "real option"
  fi_fundingDatetime :: "datetime option"
  fi_nextFundingTime :: "real option"
  fi_nextFundingDatetime :: "datetime option"
  fi_markPrice :: "real option"
  fi_indexPrice :: "real option"

record funding_record =
  exchange :: string
  symbol :: string
  fullSymbol :: string
  fundingRate :: "real option"
  fundingTimestamp :: "real option"
  fundingDatetime :: "datetime option"
  nextFundingTime :: "real option"
  nextFundingDatetime :: "datetime option"
  fundingIntervalHours :: "real option"
  markPrice :: "real option"
  indexPrice :: "real option"

section \<open>Interval Inference Engine of \<^verbatim>\<open>fetchBinanceFundingRates\<close>\<close>

text \<open>The test \<^verbatim>\<open>interval && interval > 0 && interval <= 24\<close> of methods 1 to 3.\<close>

definition in_range :: "int option \<Rightarrow> bool" where
  "in_range interval = (case interval of None \<Rightarrow> False | Some h \<Rightarrow> h \<noteq> 0 \<and> h > 0 \<and> h \<le> 24)"

definition major8HCoins :: "string list" where
  "major8HCoins =
     [''BTC'', ''ETH'', ''BNB'', ''XRP'', ''ADA'', ''SOL'', ''DOT'', ''DOGE'', ''AVAX'', ''SHIB'',
      ''MATIC'', ''LTC'', ''UNI'', ''LINK'', ''TRX'', ''BCH'', ''NEAR'', ''ATOM'', ''XLM'', ''HBAR'',
      ''VET'', ''FIL'', ''ETC'', ''THETA'', ''ICP'', ''MANA'', ''SAND'', ''AXS'', ''ALGO'', ''EGLD'',
      ''XTZ'', ''AAVE'', ''GRT'', ''KLAY'', ''FLOW'', ''FTM'', ''LRC'', ''CRV'', ''SNX'', ''COMP'']"

definition likely1HCoins :: "string list" where
  "likely1HCoins =
     [''FDUSD'', ''TUSD'', ''NEIRO'', ''DOGS'', ''HMSTR'', ''CATI'', ''EIGEN'', ''SCR'', ''LUMIA'',
      ''MEMEFI'', ''VANA'', ''VELODROME'', ''MOVE'', ''ME'', ''USUAL'', ''PENGU'', ''HYPERLIQUID'',
      ''ZBT'', ''DOOD'', ''MELANIA'', ''TRUMP'', ''PNUT'', ''ACT'', ''GOAT'']"

definition isMemeOrVolatile :: "string \<Rightarrow> bool" where
  "isMemeOrVolatile baseSymbol =
     (str_includes baseSymbol ''DOGE'' \<or> str_includes baseSymbol ''SHIB'' \<or>
      str_includes baseSymbol ''MEME'' \<or> str_includes baseSymbol ''PEPE'' \<or>
      str_includes baseSymbol ''FLOKI'' \<or> str_includes baseSymbol ''BONK'')"

text \<open>Method 4, the smart fallback (lines 229 to 268).\<close>

definition smart_fallback :: "string \<Rightarrow> string \<Rightarrow> int" where
  "smart_fallback symb baseSymbol =
     (let is1000Coin = startsWith baseSymbol ''1000'';
          isNewCoin = (str_includes symb ''-'' \<or> length baseSymbol > 6)
      in if baseSymbol \<in> set likely1HCoins \<or> isMemeOrVolatile baseSymbol then 1
         else if baseSymbol \<in> set major8HCoins \<or> is1000Coin then 8
         else if isNewCoin \<or> length baseSymbol > 5
              then (if length baseSymbol \<ge> 7 then 2 else 4)
         else 4)"

text \<open>Methods 1 to 3: the candidate of each method, kept only when it passes the range test.\<close>

definition method1 :: "funding_info \<Rightarrow> int option" where
  "method1 data =
     (if truthy (fi_fundingTimestamp data) \<and> truthy (fi_nextFundingTime data)
      then (let interval = calculateFundingInterval (fi_fundingTimestamp data) (fi_nextFundingTime data)
            in if in_range interval then interval else None)
      else None)"

definition method2 :: "funding_info \<Rightarrow> int option" where
  "method2 data =
     (if truthy_str (fi_fundingDatetime data) \<and> truthy_str (fi_nextFundingDatetime data)
      then (let currentTime = Date_getTime (fi_fundingDatetime data);
                nextTime = Date_getTime (fi_nextFundingDatetime data);
                interval = calculateFundingInterval currentTime nextTime
            in if in_range interval then interval else None)
      else None)"

definition method3 :: "history_api \<Rightarrow> string \<Rightarrow> int option" where
  "method3 fetchFundingRateHistory symb =
     (let historyInterval = getFundingIntervalForSymbol fetchFundingRateHistory symb
      in if in_range historyInterval then historyInterval else None)"

text \<open>
  The chain for one instrument (lines 196 to 268). The second component says whether the
  history of the instrument was requested from the exchange: that request is the one effect of
  the chain.
\<close>

definition inferFundingInterval ::
  "history_api \<Rightarrow> nat \<Rightarrow> string \<Rightarrow> string \<Rightarrow> funding_info \<Rightarrow> int option \<times> bool" where
  "inferFundingInterval fetchFundingRateHistory processedCount symb baseSymbol data =
     (let h1 = method1 data;
          h2 = (if \<not> truthy_int h1 then method2 data else h1);
          requested = (\<not> truthy_int h2 \<and> processedCount < 50);
          h3 = (if requested then method3 fetchFundingRateHistory symb else h2);
          h4 = (if \<not> truthy_int h3 then Some (smart_fallback symb baseSymbol) else h3)
      in (h4, requested))"

section \<open>Exchanges\<close>

text \<open>
  The capabilities of a CCXT exchange object that the adapters call. \<open>ex_markets\<close> lists the
  keys of \<^verbatim>\<open>exchange.markets\<close> in their order, each with its \<^verbatim>\<open>swap\<close> flag;
  \<open>ex_fetchFundingRates\<close> returns the own properties of the result object in the order of
  \<^verbatim>\<open>Object.keys\<close> (\<open>None\<close> for a falsy result or a falsy entry); \<open>ex_fetchTicker\<close> returns
  \<^verbatim>\<open>ticker.last\<close>.
\<close>

record ccxt_exchange =
  ex_loadMarkets :: "unit outcome"
  ex_markets :: "(string \<times> bool) list"
  ex_fetchTicker :: "string \<Rightarrow> real option outcome"
  ex_fetchFundingRates :: "(string \<times> funding_info option) list option outcome"
  ex_fetchFundingRateHistory :: history_api

datatype thrown = Thrown

section \<open>\<^verbatim>\<open>fetchBinanceFundingRates\<close> (src/api/funding-rates.js)\<close>

text \<open>The state of the loop over the symbols: the records pushed, \<^verbatim>\<open>processedCount\<close>, and the
  history requests sent to the exchange so far.\<close>

record loop_state =
  result :: "funding_record list"
  processedCount :: nat
  historyRequests :: "string list"

definition initial_state :: loop_state where
  "initial_state = \<lparr>result = [], processedCount = 0, historyRequests = []\<rparr>"

definition binance_record :: "string \<Rightarrow> string \<Rightarrow> funding_info \<Rightarrow> int option \<Rightarrow> funding_record" where
  "binance_record symb baseSymbol data hours =
     \<lparr>exchange = ''BINANCE'',
      symbol = baseSymbol,
      fullSymbol = symb,
      fundingRate =
        (case fi_fundingRate data of
           Num r \<Rightarrow> if r \<noteq> 0 then Some (toFixed6 (r * 100)) else Some 0
         | _ \<Rightarrow> Some 0),
      fundingTimestamp = fi_fundingTimestamp data,
      fundingDatetime = fi_fundingDatetime data,
      nextFundingTime = js_or (fi_nextFundingTime data) (fi_fundingTimestamp data),
      nextFundingDatetime = str_or (fi_nextFundingDatetime data) (fi_fundingDatetime data),
      fundingIntervalHours = map_option real_of_int hours,
      markPrice = fi_markPrice data,
      indexPrice = fi_indexPrice data\<rparr>"

text \<open>One turn of the loop (lines 187 to 289). An entry that is falsy or whose rate is
  \<^verbatim>\<open>undefined\<close> is passed over by \<^verbatim>\<open>continue\<close>.\<close>

definition binance_step ::
  "history_api \<Rightarrow> (string \<times> funding_info option) list \<Rightarrow> loop_state \<Rightarrow> string \<Rightarrow> loop_state" where
  "binance_step fetchFundingRateHistory fundingRates st symb =
     (case map_of fundingRates symb of
        Some (Some data) \<Rightarrow>
          (if fi_fundingRate data = Undefined then st
           else let baseSymbol = str_replace (split_colon_first symb) ''/USDT'' [];
                    inferred = inferFundingInterval fetchFundingRateHistory (processedCount st)
                                 symb baseSymbol data
                in \<lparr>result = result st @ [binance_record symb baseSymbol data (fst inferred)],
                    processedCount = processedCount st + 1,
                    historyRequests = historyRequests st @ (if snd inferred then [symb] else [])\<rparr>)
      | _ \<Rightarrow> st)"

definition binance_symbols :: "(string \<times> funding_info option) list \<Rightarrow> string list" where
  "binance_symbols fundingRates =
     filter (\<lambda>symb. str_includes symb ''USDT'' \<and> str_includes symb '':'') (map fst fundingRates)"

definition by_symbol :: "(string \<Rightarrow> string \<Rightarrow> real) \<Rightarrow> funding_record \<Rightarrow> funding_record \<Rightarrow> real" where
  "by_symbol localeCompare a b = localeCompare (symbol a) (symbol b)"

definition binance_loop :: "ccxt_exchange \<Rightarrow> (string \<times> funding_info option) list \<Rightarrow> loop_state" where
  "binance_loop ex fundingRates =
     foldl (binance_step (ex_fetchFundingRateHistory ex) fundingRates) initial_state
       (binance_symbols fundingRates)"

text \<open>The body of the outer \<^verbatim>\<open>try\<close>: \<open>Inl\<close> when an exception reaches the \<^verbatim>\<open>catch\<close>.\<close>

definition fetchBinanceFundingRates_try ::
  "(string \<Rightarrow> string \<Rightarrow> real) \<Rightarrow> ccxt_exchange \<Rightarrow> thrown + loop_state" where
  "fetchBinanceFundingRates_try localeCompare ex =
     (case ex_loadMarkets ex of
        Throws \<Rightarrow> Inl Thrown
      | Returns _ \<Rightarrow>
          (case ex_fetchFundingRates ex of
             Throws \<Rightarrow> Inl Thrown
           | Returns None \<Rightarrow> Inr initial_state
           | Returns (Some fundingRates) \<Rightarrow>
               (if length fundingRates = 0 then Inr initial_state
                else let st = binance_loop ex fundingRates
                     in Inr (st\<lparr>result := sort_by (by_symbol localeCompare) (result st)\<rparr>))))"

definition fetchBinanceFundingRates ::
  "(string \<Rightarrow> string \<Rightarrow> real) \<Rightarrow> ccxt_exchange \<Rightarrow> funding_record list" where
  "fetchBinanceFundingRates localeCompare ex =
     (case fetchBinanceFundingRates_try localeCompare ex of Inl _ \<Rightarrow> [] | Inr st \<Rightarrow> result st)"

text \<open>The history requests one call of the adapter sends.\<close>

definition binance_history_requests ::
  "(string \<Rightarrow> string \<Rightarrow> real) \<Rightarrow> ccxt_exchange \<Rightarrow> string list" where
  "binance_history_requests localeCompare ex =
     (case fetchBinanceFundingRates_try localeCompare ex of
        Inl _ \<Rightarrow> [] | Inr st \<Rightarrow> historyRequests st)"

section \<open>\<^verbatim>\<open>fetchMexcFundingRates\<close> (src/api/funding-rates.js)\<close>

text \<open>
  An item of the contract endpoint's \<^verbatim>\<open>data\<close> array. \<open>mi_collectCycle\<close> is \<open>None\<close> when the
  field is absent or \<^verbatim>\<open>typeof\<close> is not \<^verbatim>\<open>'number'\<close>.
\<close>

record mexc_item =
  mi_symbol :: "string option"
  mi_collectCycle :: "real option"
  mi_fundingRate :: "real option"
  mi_nextSettleTime :: "real option"

record mexc_response =
  mr_success :: bool
  mr_data :: "mexc_item list option"

definition mexc_interval :: "mexc_item \<Rightarrow> real" where
  "mexc_interval item =
     (case mi_collectCycle item of
        Some c \<Rightarrow> if c \<noteq> 0 then c else 8
      | None \<Rightarrow> 8)"

definition mexc_item_records :: "mexc_item \<Rightarrow> funding_record list" where
  "mexc_item_records item =
     (case mi_symbol item of
        None \<Rightarrow> []
      | Some s \<Rightarrow>
          if s \<noteq> [] \<and> str_includes s ''USDT''
          then let baseSymbol = toUpperCase (str_replace (str_replace s ''_USDT'' []) ''USDT'' []);
                   hours = mexc_interval item;
                   settle = mi_nextSettleTime item
               in [\<lparr>exchange = ''MEXC'',
                    symbol = baseSymbol,
                    fullSymbol = baseSymbol @ ''/USDT:USDT'',
                    fundingRate =
                      (case mi_fundingRate item of
                         Some r \<Rightarrow> if r \<noteq> 0 then Some (toFixed6 (r * 100)) else None
                       | None \<Rightarrow> None),
                    fundingTimestamp =
                      (case settle of
                         Some t \<Rightarrow> if t \<noteq> 0 then Some (t - hours * 60 * 60 * 1000) else None
                       | None \<Rightarrow> None),
                    fundingDatetime =
                      (case settle of
                         Some t \<Rightarrow>
                           if t \<noteq> 0 then Some (toISOString (t - hours * 60 * 60 * 1000)) else None
                       | None \<Rightarrow> None),
                    nextFundingTime = js_or settle None,
                    nextFundingDatetime =
                      (case settle of
                         Some t \<Rightarrow> if t \<noteq> 0 then Some (toISOString t) else None
                       | None \<Rightarrow> None),
                    fundingIntervalHours = Some hours,
                    markPrice = None,
                    indexPrice = None\<rparr>]
          else [])"

definition mexc_ticker_record :: "string \<Rightarrow> real option \<Rightarrow> funding_record" where
  "mexc_ticker_record symb last_price =
     \<lparr>exchange = ''MEXC'',
      symbol = str_replace symb ''/USDT'' [],
      fullSymbol = symb,
      fundingRate = None,
      fundingTimestamp = None,
      fundingDatetime = None,
      nextFundingTime = None,
      nextFundingDatetime = None,
      fundingIntervalHours = Some 8,
      markPrice = last_price,
      indexPrice = None\<rparr>"

definition swap_symbols :: "ccxt_exchange \<Rightarrow> string list" where
  "swap_symbols ex =
     filter (\<lambda>symb. str_includes symb ''/USDT'' \<and> map_of (ex_markets ex) symb = Some True)
       (map fst (ex_markets ex))"

text \<open>The fallback of the inner \<^verbatim>\<open>catch\<close>: the first 20 swap symbols, one ticker each; a
  symbol whose ticker call throws is passed over.\<close>

definition mexc_ticker_fallback :: "ccxt_exchange \<Rightarrow> funding_record list" where
  "mexc_ticker_fallback ex =
     concat (map (\<lambda>symb. case ex_fetchTicker ex symb of
                            Returns last_price \<Rightarrow> [mexc_ticker_record symb last_price]
                          | Throws \<Rightarrow> [])
                 (take 20 (swap_symbols ex)))"

text \<open>What the inner \<^verbatim>\<open>try\<close> and its \<^verbatim>\<open>catch\<close> push: the items of the endpoint, or, when the
  request or the parsing of its answer throws, the tickers. An exception thrown while the items
  are being read (an item that is no object, a settle time that is no valid instant) is not
  modelled.\<close>

definition mexc_pushed :: "mexc_response outcome \<Rightarrow> ccxt_exchange \<Rightarrow> funding_record list" where
  "mexc_pushed endpoint ex =
     (case endpoint of
        Returns data \<Rightarrow>
          (if mr_success data
           then (case mr_data data of
                   Some items \<Rightarrow> concat (map mexc_item_records items)
                 | None \<Rightarrow> [])
           else [])
      | Throws \<Rightarrow> mexc_ticker_fallback ex)"

definition fetchMexcFundingRates_try ::
  "(string \<Rightarrow> string \<Rightarrow> real) \<Rightarrow> mexc_response outcome \<Rightarrow> ccxt_exchange \<Rightarrow>
     thrown + funding_record list" where
  "fetchMexcFundingRates_try localeCompare endpoint ex =
     (case ex_loadMarkets ex of
        Throws \<Rightarrow> Inl Thrown
      | Returns _ \<Rightarrow> Inr (sort_by (by_symbol localeCompare) (mexc_pushed endpoint ex)))"

definition fetchMexcFundingRates ::
  "(string \<Rightarrow> string \<Rightarrow> real) \<Rightarrow> mexc_response outcome \<Rightarrow> ccxt_exchange \<Rightarrow> funding_record list" where
  "fetchMexcFundingRates localeCompare endpoint ex =
     (case fetchMexcFundingRates_try localeCompare endpoint ex of Inl _ \<Rightarrow> [] | Inr rs \<Rightarrow> rs)"

section \<open>\<^verbatim>\<open>fetchFundingRates\<close> and the handler (src/api/funding-rates.js)\<close>

text \<open>
  What one run meets: the two exchange objects, the answer of MEXC's contract endpoint, the
  collation, and for each source whether its fetch settles before the 20 second timer of
  \<^verbatim>\<open>Promise.race\<close> fires.
\<close>

record environment =
  binance :: ccxt_exchange
  mexc :: ccxt_exchange
  mexc_endpoint :: "mexc_response outcome"
  localeCompare :: "string \<Rightarrow> string \<Rightarrow> real"
  binance_in_time :: bool
  mexc_in_time :: bool

definition fetchFundingRates_try ::
  "environment \<Rightarrow> string \<Rightarrow> ccxt_exchange \<Rightarrow> thrown + funding_record list" where
  "fetchFundingRates_try env exchangeName ex =
     (if exchangeName = ''mexc''
      then Inr (fetchMexcFundingRates (localeCompare env) (mexc_endpoint env) ex)
      else if exchangeName = ''binance''
      then Inr (fetchBinanceFundingRates (localeCompare env) ex)
      else Inr [])"

definition fetchFundingRates :: "environment \<Rightarrow> string \<Rightarrow> ccxt_exchange \<Rightarrow> funding_record list" where
  "fetchFundingRates env exchangeName ex =
     (case fetchFundingRates_try env exchangeName ex of Inl _ \<Rightarrow> [] | Inr rs \<Rightarrow> rs)"






subsection \<open>Objects as lookup maps\<close>

text \<open>
  An object is the list of its own properties in the order they were created. Assigning to an
  existing key keeps its place. \<^verbatim>\<open>Object.keys\<close> lists array-index keys first, in numeric order,
  then the other keys in creation order. Symbols are taken not to be names that
  \<^verbatim>\<open>Object.prototype\<close> defines.
\<close>

type_synonym 'a js_object = "(string \<times> 'a) list"

fun obj_put :: "'a js_object \<Rightarrow> string \<Rightarrow> 'a \<Rightarrow> 'a js_object" where
  "obj_put [] k v = [(k, v)]"
| "obj_put ((k', v') # kvs) k v = (if k' = k then (k, v) # kvs else (k', v') # obj_put kvs k v)"

definition is_digit :: "char \<Rightarrow> bool" where
  "is_digit c = (48 \<le> (of_char c :: nat) \<and> (of_char c :: nat) \<le> 57)"

definition decimal_value :: "string \<Rightarrow> nat" where
  "decimal_value s = foldl (\<lambda>n c. 10 * n + (of_char c - 48)) 0 s"

definition is_array_index :: "string \<Rightarrow> bool" where
  "is_array_index s =
     (s \<noteq> [] \<and> list_all is_digit s \<and> (s = ''0'' \<or> take 1 s \<noteq> ''0'') \<and>
      decimal_value s < 4294967295)"

definition Object_keys :: "'a js_object \<Rightarrow> string list" where
  "Object_keys obj =
     (let ks = map fst obj
      in sort_key decimal_value (filter is_array_index ks) @
         filter (\<lambda>k. \<not> is_array_index k) ks)"

text \<open>\<^verbatim>\<open>new Set(keys)\<close>: each key once, in the order of its first occurrence.\<close>

definition Set_of :: "string list \<Rightarrow> string list" where
  "Set_of ks = foldl (\<lambda>seen k. if k \<in> set seen then seen else seen @ [k]) [] ks"

definition lookup_map :: "funding_record list \<Rightarrow> funding_record js_object" where
  "lookup_map rates = foldl (\<lambda>m item. obj_put m (symbol item) item) [] rates"

subsection \<open>The comparison table\<close>

datatype 'a or_na = Val 'a | NA

record exchange_side =
  s_fundingRate :: "real option or_na"
  s_fundingIntervalHours :: "real option or_na"
  s_nextFundingDatetime :: "datetime option or_na"
  s_markPrice :: "real option or_na"

datatype favorable = BINANCE | MEXC | EQUAL | BINANCE_ONLY | MEXC_ONLY

datatype category = HIGH | MEDIUM | LOW

record table_entry =
  te_symbol :: string
  te_binance :: exchange_side
  te_mexc :: exchange_side
  fundingRateDifference :: "real or_na"
  absoluteDifference :: "real or_na"
  favorableExchange :: favorable
  differenceCategory :: "category or_na"

definition side_of :: "funding_record \<Rightarrow> exchange_side" where
  "side_of item =
     \<lparr>s_fundingRate = Val (fundingRate item),
      s_fundingIntervalHours = Val (fundingIntervalHours item),
      s_nextFundingDatetime = Val (nextFundingDatetime item),
      s_markPrice = Val (markPrice item)\<rparr>"


text \<open>The entry pushed for a symbol of both maps (lines 422 to 445).\<close>

definition comparison_entry :: "string \<Rightarrow> funding_record \<Rightarrow> funding_record \<Rightarrow> table_entry" where
  "comparison_entry symb binanceData mexcData =
     (let binanceRate = rate_or_zero (fundingRate binanceData);
          mexcRate = rate_or_zero (fundingRate mexcData);
          difference = mexcRate - binanceRate
      in \<lparr>te_symbol = symb,
          te_binance = side_of binanceData,
          te_mexc = side_of mexcData,
          fundingRateDifference = Val (toFixed6 difference),
          absoluteDifference = Val (toFixed6 \<bar>difference\<bar>),
          favorableExchange =
            (if difference > 0 then BINANCE else if difference < 0 then MEXC else EQUAL),
          differenceCategory =
            Val (if \<bar>difference\<bar> \<ge> 0.1 then HIGH
                 else if \<bar>difference\<bar> \<ge> 0.05 then MEDIUM else LOW)\<rparr>)"

definition allSymbols :: "funding_record list \<Rightarrow> funding_record list \<Rightarrow> string list" where
  "allSymbols bRates mRates =
     Set_of (Object_keys (lookup_map bRates) @ Object_keys (lookup_map mRates))"

definition compare_symbol ::
  "funding_record js_object \<Rightarrow> funding_record js_object \<Rightarrow> string \<Rightarrow> table_entry list" where
  "compare_symbol binanceMap mexcMap symb =
     (case (map_of binanceMap symb, map_of mexcMap symb) of
        (Some binanceData, Some mexcData) \<Rightarrow>
          if fundingRate binanceData \<noteq> None \<or> fundingRate mexcData \<noteq> None
          then [comparison_entry symb binanceData mexcData]
          else []
      | _ \<Rightarrow> [])"

definition difference_value :: "table_entry \<Rightarrow> real" where
  "difference_value e = (case fundingRateDifference e of Val d \<Rightarrow> d | NA \<Rightarrow> 0)"

definition comparisonTable :: "funding_record list \<Rightarrow> funding_record list \<Rightarrow> table_entry list" where
  "comparisonTable bRates mRates =
     sort_by (\<lambda>a b. difference_value a - difference_value b)
       (concat (map (compare_symbol (lookup_map bRates) (lookup_map mRates))
                    (allSymbols bRates mRates)))"




subsection \<open>The response\<close>

text \<open>The histogram \<^verbatim>\<open>intervalStats\<close>, keyed by the interval that the key \<^verbatim>\<open>`${h}H`\<close> names.\<close>

fun count_up :: "('k \<times> nat) list \<Rightarrow> 'k \<Rightarrow> ('k \<times> nat) list" where
  "count_up [] k = [(k, 1)]"
| "count_up ((k', n) # kns) k = (if k' = k then (k', n + 1) # kns else (k', n) # count_up kns k)"

definition intervalStats :: "funding_record list \<Rightarrow> (real option \<times> nat) list" where
  "intervalStats allRates = foldl (\<lambda>stats item. count_up stats (fundingIntervalHours item)) [] allRates"

record response =
  totalUniqueCoins :: nat
  commonCoins :: nat
  exchanges_binance :: nat
  exchanges_mexc :: nat
  fundingIntervals :: "(real option \<times> nat) list"
  highDifferences :: nat
  mediumDifferences :: nat
  lowDifferences :: nat
  favorsBinance :: nat
  favorsMexc :: nat
  tableData :: "table_entry list"
  rawData_binance :: "funding_record list"
  rawData_mexc :: "funding_record list"


text \<open>The handler: the status and body it answers with. The clock fields
  (\<^verbatim>\<open>timestamp\<close>, \<^verbatim>\<open>fetchDuration\<close>) are left out. \<open>Json500\<close> is the answer of the outer
  \<^verbatim>\<open>catch\<close>; on records of the shape the adapters build, no statement of the body throws.\<close>

datatype http_result = End200 | Json405 | Json200 response | Json500


section \<open>The variant of src/unnamed/part_000\<close>

text \<open>
  Here the instruments of a batch are fetched concurrently (\<^verbatim>\<open>Promise.all\<close> over
  \<^verbatim>\<open>batch.map(async ...)\<close>), and every callback pushes its record when its own requests have
  been answered. \<open>latency\<close> gives, for each symbol, the time its request takes; the callbacks
  that wait for a request push in the order of these times, a tie in the order of the batch.
  A callback that waits for nothing pushes at once, while the batch is being mapped.
\<close>

function batches :: "nat \<Rightarrow> 'a list \<Rightarrow> 'a list list" where
  "batches batchSize xs =
     (if batchSize = 0 \<or> xs = [] then []
      else take batchSize xs # batches batchSize (drop batchSize xs))"
  by pat_completeness auto
termination
  by (relation "measure (\<lambda>(batchSize, xs). length xs)") auto

definition completion_order :: "(string \<Rightarrow> nat) \<Rightarrow> string list \<Rightarrow> string list" where
  "completion_order latency batch = sort_key latency batch"

text \<open>\<^verbatim>\<open>fetchMexcFundingRates\<close> of part_000: a ticker for each of the first 50 swap symbols, in
  batches of 5; no sort.\<close>

definition mexc_batch_part000 :: "(string \<Rightarrow> nat) \<Rightarrow> ccxt_exchange \<Rightarrow> string list \<Rightarrow> funding_record list" where
  "mexc_batch_part000 latency ex batch =
     concat (map (\<lambda>symb. case ex_fetchTicker ex symb of
                            Returns last_price \<Rightarrow> [mexc_ticker_record symb last_price]
                          | Throws \<Rightarrow> [])
                 (completion_order latency batch))"

definition fetchMexcFundingRates_part000 :: "(string \<Rightarrow> nat) \<Rightarrow> ccxt_exchange \<Rightarrow> funding_record list" where
  "fetchMexcFundingRates_part000 latency ex =
     (case ex_loadMarkets ex of
        Throws \<Rightarrow> []
      | Returns _ \<Rightarrow>
          concat (map (mexc_batch_part000 latency ex) (batches 5 (take 50 (swap_symbols ex)))))"

text \<open>The interval chain of part_000 (lines 154 to 177): the timestamp pair, then the history,
  then the constant 8. No range test, and no bound on the number of history requests.\<close>

definition timestamp_interval_part000 :: "funding_info \<Rightarrow> int option" where
  "timestamp_interval_part000 data =
     (if truthy (fi_fundingTimestamp data) \<and> truthy (fi_nextFundingTime data)
      then calculateFundingInterval (fi_fundingTimestamp data) (fi_nextFundingTime data)
      else None)"

definition waits_for_history_part000 :: "funding_info \<Rightarrow> bool" where
  "waits_for_history_part000 data = (\<not> truthy_int (timestamp_interval_part000 data))"

definition inferFundingInterval_part000 :: "history_api \<Rightarrow> string \<Rightarrow> funding_info \<Rightarrow> int option" where
  "inferFundingInterval_part000 fetchFundingRateHistory symb data =
     (let h1 = timestamp_interval_part000 data;
          h2 = (if \<not> truthy_int h1 then getFundingIntervalForSymbol fetchFundingRateHistory symb
                else h1);
          h3 = (if \<not> truthy_int h2 then Some 8 else h2)
      in h3)"

definition record_part000 :: "string \<Rightarrow> history_api \<Rightarrow> string \<Rightarrow> funding_info \<Rightarrow> funding_record" where
  "record_part000 exchangeName fetchFundingRateHistory symb data =
     \<lparr>exchange = toUpperCase exchangeName,
      symbol = str_replace (split_colon_first symb) ''/USDT'' [],
      fullSymbol = symb,
      fundingRate =
        (case fi_fundingRate data of
           Num r \<Rightarrow> if r \<noteq> 0 then Some (toFixed6 (r * 100)) else None
         | _ \<Rightarrow> None),
      fundingTimestamp = fi_fundingTimestamp data,
      fundingDatetime = fi_fundingDatetime data,
      nextFundingTime = fi_nextFundingTime data,
      nextFundingDatetime = fi_nextFundingDatetime data,
      fundingIntervalHours =
        map_option real_of_int (inferFundingInterval_part000 fetchFundingRateHistory symb data),
      markPrice = fi_markPrice data,
      indexPrice = fi_indexPrice data\<rparr>"

text \<open>The history requests of the instruments of a list, one for each that waits.\<close>

definition history_requests_part000 ::
  "(string \<times> funding_info option) list \<Rightarrow> string list \<Rightarrow> string list" where
  "history_requests_part000 fundingRates symbols =
     filter (\<lambda>symb. case map_of fundingRates symb of
                      Some (Some data) \<Rightarrow> waits_for_history_part000 data
                    | _ \<Rightarrow> False)
            symbols"

text \<open>One batch: \<open>Inl\<close> when an entry is falsy, so that reading its field throws and
  \<^verbatim>\<open>Promise.all\<close> rejects.\<close>

definition batch_part000 ::
  "(string \<Rightarrow> nat) \<Rightarrow> string \<Rightarrow> ccxt_exchange \<Rightarrow> (string \<times> funding_info option) list \<Rightarrow>
     string list \<Rightarrow> thrown + funding_record list" where
  "batch_part000 latency exchangeName ex fundingRates batch =
     (if list_ex (\<lambda>symb. case map_of fundingRates symb of
                              Some (Some data) \<Rightarrow> False
                            | _ \<Rightarrow> True) batch
      then Inl Thrown
      else let waiting = history_requests_part000 fundingRates batch;
               at_once = filter (\<lambda>symb. symb \<notin> set waiting) batch;
               pushes = at_once @ completion_order latency waiting
           in Inr (concat (map (\<lambda>symb. case map_of fundingRates symb of
                                          Some (Some data) \<Rightarrow>
                                            [record_part000 exchangeName
                                               (ex_fetchFundingRateHistory ex) symb data]
                                        | _ \<Rightarrow> [])
                               pushes)))"

fun batch_loop_part000 ::
  "(string \<Rightarrow> nat) \<Rightarrow> string \<Rightarrow> ccxt_exchange \<Rightarrow> (string \<times> funding_info option) list \<Rightarrow>
     string list list \<Rightarrow> thrown + funding_record list" where
  "batch_loop_part000 latency exchangeName ex fundingRates [] = Inr []"
| "batch_loop_part000 latency exchangeName ex fundingRates (batch # rest) =
     (case batch_part000 latency exchangeName ex fundingRates batch of
        Inl e \<Rightarrow> Inl e
      | Inr pushed \<Rightarrow>
          (case batch_loop_part000 latency exchangeName ex fundingRates rest of
             Inl e \<Rightarrow> Inl e
           | Inr later \<Rightarrow> Inr (pushed @ later)))"

definition fetchFundingRates_try_part000 ::
  "(string \<Rightarrow> nat) \<Rightarrow> string \<Rightarrow> ccxt_exchange \<Rightarrow> thrown + funding_record list" where
  "fetchFundingRates_try_part000 latency exchangeName ex =
     (if exchangeName = ''mexc'' then Inr (fetchMexcFundingRates_part000 latency ex)
      else case ex_loadMarkets ex of
             Throws \<Rightarrow> Inl Thrown
           | Returns _ \<Rightarrow>
               (case ex_fetchFundingRates ex of
                  Throws \<Rightarrow> Inl Thrown
                | Returns None \<Rightarrow> Inl Thrown
                | Returns (Some fundingRates) \<Rightarrow>
                    batch_loop_part000 latency exchangeName ex fundingRates
                      (batches 10 (filter (\<lambda>symb. str_includes symb '':'' \<and> str_includes symb ''USDT'')
                                     (map fst fundingRates)))))"

definition fetchFundingRates_part000 ::
  "(string \<Rightarrow> nat) \<Rightarrow> string \<Rightarrow> ccxt_exchange \<Rightarrow> funding_record list" where
  "fetchFundingRates_part000 latency exchangeName ex =
     (case fetchFundingRates_try_part000 latency exchangeName ex of
        Inl _ \<Rightarrow> [] | Inr rs \<Rightarrow> rs)"

text \<open>The handler of part_000: both sources, one list sorted by rate (highest first), and the
  summary. \<^verbatim>\<open>averageFundingRate\<close> adds \<^verbatim>\<open>parseFloat(item.fundingRate) || 0\<close> for every record.
  \<open>handler_part000\<close> gives the body of the answer to a GET, and \<open>None\<close> for the other
  methods, which get no such body.\<close>

definition sorted_by_rate_part000 :: "funding_record list \<Rightarrow> funding_record list" where
  "sorted_by_rate_part000 rates =
     sort_by (\<lambda>a b. rate_or_zero (fundingRate b) - rate_or_zero (fundingRate a)) rates"

definition averageFundingRate :: "funding_record list \<Rightarrow> real" where
  "averageFundingRate allRates =
     (if length allRates > 0
      then toFixed6 (foldl (\<lambda>total item. total + rate_or_zero (fundingRate item)) 0 allRates
                     / real (length allRates))
      else 0)"

record response_part000 =
  totalContracts :: nat
  count_binance :: nat
  count_mexc :: nat
  intervals_part000 :: "(real option \<times> nat) list"
  data_part000 :: "funding_record list"
  highestFundingRate :: "funding_record option"
  lowestFundingRate :: "funding_record option"
  summary_averageFundingRate :: real

definition respond_part000 :: "funding_record list \<Rightarrow> funding_record list \<Rightarrow> response_part000" where
  "respond_part000 bRates mRates =
     (let allRates = sorted_by_rate_part000 (bRates @ mRates)
      in \<lparr>totalContracts = length allRates,
          count_binance = length bRates,
          count_mexc = length mRates,
          intervals_part000 = intervalStats allRates,
          data_part000 = allRates,
          highestFundingRate = (if allRates = [] then None else Some (hd allRates)),
          lowestFundingRate = (if allRates = [] then None else Some (last allRates)),
          summary_averageFundingRate = averageFundingRate allRates\<rparr>)"

definition handler_part000 ::
  "(string \<Rightarrow> nat) \<Rightarrow> ccxt_exchange \<Rightarrow> ccxt_exchange \<Rightarrow> string \<Rightarrow> response_part000 option" where
  "handler_part000 latency binance_ex mexc_ex method =
     (if method = ''GET''
      then Some (respond_part000 (fetchFundingRates_part000 latency ''binance'' binance_ex)
                                 (fetchFundingRates_part000 latency ''mexc'' mexc_ex))
      else None)"

section \<open>Invariant of the loop, and sample inputs\<close>

text \<open>What every state of the loop of \<^verbatim>\<open>fetchBinanceFundingRates\<close> satisfies.\<close>

definition loop_invariant :: "(string \<times> funding_info option) list \<Rightarrow> loop_state \<Rightarrow> bool" where
  "loop_invariant fundingRates st =
     (length (historyRequests st) \<le> processedCount st \<and>
      length (historyRequests st) \<le> 50 \<and>
      processedCount st = length (result st) \<and>
      (\<forall>r \<in> set (result st). \<exists>k. fundingIntervalHours r = Some (real_of_int k) \<and> 0 < k \<and> k \<le> 24) \<and>
      (\<forall>s \<in> set (historyRequests st). \<exists>data. map_of fundingRates s = Some (Some data) \<and>
           method1 data = None \<and> method2 data = None))"

text \<open>Inputs for the examples: an instrument's funding information with a rate and the two
  timestamps, an exchange object whose calls all succeed, a record with a rate, and an item of
  MEXC's endpoint.\<close>

definition sample_info :: "js_rate \<Rightarrow> real option \<Rightarrow> real option \<Rightarrow> funding_info" where
  "sample_info rate current_ts next_ts =
     \<lparr>fi_fundingRate = rate, fi_fundingTimestamp = current_ts, fi_fundingDatetime = None,
      fi_nextFundingTime = next_ts, fi_nextFundingDatetime = None, fi_markPrice = None,
      fi_indexPrice = None\<rparr>"

definition sample_exchange ::
  "(string \<times> funding_info option) list \<Rightarrow> (string \<times> bool) list \<Rightarrow> history_api \<Rightarrow> ccxt_exchange" where
  "sample_exchange fundingRates swaps history =
     \<lparr>ex_loadMarkets = Returns (), ex_markets = swaps, ex_fetchTicker = (\<lambda>symb. Returns None),
      ex_fetchFundingRates = Returns (Some fundingRates),
      ex_fetchFundingRateHistory = history\<rparr>"

definition sample_record :: "string \<Rightarrow> string \<Rightarrow> real option \<Rightarrow> funding_record" where
  "sample_record exchangeName baseSymbol rate =
     \<lparr>exchange = exchangeName, symbol = baseSymbol, fullSymbol = baseSymbol @ ''/USDT:USDT'',
      fundingRate = rate, fundingTimestamp = None, fundingDatetime = None,
      nextFundingTime = None, nextFundingDatetime = None, fundingIntervalHours = Some 8,
      markPrice = None, indexPrice = None\<rparr>"

definition sample_item :: "string \<Rightarrow> real option \<Rightarrow> real option \<Rightarrow> mexc_item" where
  "sample_item s cycle rate =
     \<lparr>mi_symbol = Some s, mi_collectCycle = cycle, mi_fundingRate = rate,
      mi_nextSettleTime = None\<rparr>"

text \<open>Two instruments listed with ETH first, both with a timestamp pair 8 hours apart; two swap
  markets in the same order; and a run in which MEXC's endpoint answers with one item.\<close>

definition two_instruments :: "(string \<times> funding_info option) list" where
  "two_instruments =
     [(''ETH/USDT:USDT'', Some (sample_info (Num 0.0001) (Some 1700000000000) (Some 1700028800000))),
      (''BTC/USDT:USDT'', Some (sample_info (Num 0.0002) (Some 1700000000000) (Some 1700028800000)))]"

definition two_swaps :: "(string \<times> bool) list" where
  "two_swaps = [(''ETH/USDT'', True), (''BTC/USDT'', True)]"




section \<open>Properties of the comparator sort\<close>

lemma set_insert_by: "set (insert_by cmp x ys) = insert x (set ys)"
  by (induction ys) auto

lemma length_insert_by: "length (insert_by cmp x ys) = Suc (length ys)"
  by (induction ys) auto

lemma set_sort_by: "set (sort_by cmp xs) = set xs"
  unfolding sort_by_def by (induction xs) (simp_all add: set_insert_by)

lemma length_sort_by: "length (sort_by cmp xs) = length xs"
  unfolding sort_by_def by (induction xs) (simp_all add: length_insert_by)

lemma sort_by_Nil_iff: "sort_by cmp xs = [] \<longleftrightarrow> xs = []"
  using length_sort_by [of cmp xs] by (metis length_0_conv)

lemma sorted_insert_by:
  assumes total: "\<And>a b. cmp a b \<le> 0 \<or> cmp b a \<le> 0"
    and trans: "\<And>a b c. cmp a b \<le> 0 \<Longrightarrow> cmp b c \<le> 0 \<Longrightarrow> cmp a c \<le> 0"
  shows "sorted_wrt (\<lambda>a b. cmp a b \<le> 0) ys \<Longrightarrow> sorted_wrt (\<lambda>a b. cmp a b \<le> 0) (insert_by cmp x ys)"
proof (induction ys)
  case Nil
  then show ?case by simp
next
  case (Cons y ys)
  show ?case
  proof (cases "cmp x y \<le> 0")
    case True
    with Cons.prems trans show ?thesis by auto
  next
    case False
    then have yx: "cmp y x \<le> 0" using total by blast
    from Cons have "sorted_wrt (\<lambda>a b. cmp a b \<le> 0) (insert_by cmp x ys)" by simp
    with False yx Cons.prems show ?thesis by (auto simp: set_insert_by)
  qed
qed

lemma sorted_sort_by:
  assumes total: "\<And>a b. cmp a b \<le> 0 \<or> cmp b a \<le> 0"
    and trans: "\<And>a b c. cmp a b \<le> 0 \<Longrightarrow> cmp b c \<le> 0 \<Longrightarrow> cmp a c \<le> 0"
  shows "sorted_wrt (\<lambda>a b. cmp a b \<le> 0) (sort_by cmp xs)"
  unfolding sort_by_def
proof (induction xs)
  case Nil
  show ?case by simp
next
  case (Cons x xs)
  have "sorted_wrt (\<lambda>a b. cmp a b \<le> 0) (insert_by cmp x (foldr (insert_by cmp) xs []))"
    by (rule sorted_insert_by [OF total trans Cons.IH])
  then show ?case by simp
qed

lemma sorted_by_symbol:
  assumes "consistent_comparator lc"
  shows "sorted_wrt (\<lambda>a b. lc (symbol a) (symbol b) \<le> 0) (sort_by (by_symbol lc) rs)"
proof -
  have total: "\<And>a b. by_symbol lc a b \<le> 0 \<or> by_symbol lc b a \<le> 0"
    using assms unfolding consistent_comparator_def by_symbol_def by blast
  have trans: "\<And>a b c. by_symbol lc a b \<le> 0 \<Longrightarrow> by_symbol lc b c \<le> 0 \<Longrightarrow> by_symbol lc a c \<le> 0"
    using assms unfolding consistent_comparator_def by_symbol_def by blast
  have "sorted_wrt (\<lambda>a b. by_symbol lc a b \<le> 0) (sort_by (by_symbol lc) rs)"
    by (rule sorted_sort_by [OF total trans])
  then show ?thesis by (simp add: by_symbol_def)
qed

lemma code_unit_compare_le_iff:
  "code_unit_compare a b \<le> 0 \<longleftrightarrow> (a, b) \<in> lexord {(x, y). (of_char x :: nat) < of_char y} \<or> a = b"
  by (induction a b rule: code_unit_compare.induct) auto

lemma code_unit_compare_consistent: "consistent_comparator code_unit_compare"
proof -
  let ?r = "{(x :: char, y). (of_char x :: nat) < of_char y}"
  have tr: "trans ?r" by (auto simp: trans_def)
  have tot: "\<And>a b. (a, b) \<in> lexord ?r \<or> a = b \<or> (b, a) \<in> lexord ?r"
    by (rule lexord_linear) auto
  have ltr: "\<And>a b c. (a, b) \<in> lexord ?r \<Longrightarrow> (b, c) \<in> lexord ?r \<Longrightarrow> (a, c) \<in> lexord ?r"
    using lexord_trans [OF _ _ tr] by blast
  show ?thesis
    unfolding consistent_comparator_def code_unit_compare_le_iff
    using tot ltr by blast
qed

section \<open>Properties of the Interval Calculator\<close>

lemma Math_round_nearest:
  "real_of_int (Math_round d) - 1 / 2 \<le> d \<and> d < real_of_int (Math_round d) + 1 / 2"
  unfolding Math_round_def by linarith

lemma method1_in_range: "method1 data = Some h \<Longrightarrow> 0 < h \<and> h \<le> 24"
  by (auto simp: method1_def Let_def in_range_def split: if_splits)

lemma method2_in_range: "method2 data = Some h \<Longrightarrow> 0 < h \<and> h \<le> 24"
  by (auto simp: method2_def Let_def in_range_def split: if_splits)

lemma method3_in_range: "method3 hist symb = Some h \<Longrightarrow> 0 < h \<and> h \<le> 24"
  by (auto simp: method3_def Let_def in_range_def split: if_splits)

lemma calculate_any_integer:
  "calculateFundingInterval (Some 1) (Some (1 + 3600000 * real_of_int k)) = Some k"
proof -
  have "1 + 3600000 * real_of_int k \<noteq> 0"
  proof
    assume "1 + 3600000 * real_of_int k = 0"
    then have "real_of_int (1 + 3600000 * k) = real_of_int 0" by simp
    then have "1 + 3600000 * k = 0" by (simp only: of_int_eq_iff)
    then have "(1 + 3600000 * k) mod 3600000 = 0 mod 3600000" by simp
    then show False by simp
  qed
  moreover have "Math_round (real_of_int k) = k"
    unfolding Math_round_def by linarith
  ultimately show ?thesis by simp
qed

text \<open>
  Claim C2, as the code has it. \<^verbatim>\<open>calculateFundingInterval\<close> returns \<^verbatim>\<open>null\<close> when either
  timestamp is missing or is the number 0; in every other case it returns
  \<^verbatim>\<open>Math.round((next - current) / 3600000)\<close>, the integer nearest to the difference in hours
  (at most half an hour away, a tie going up). The witness is the instrument with
  current = 1700000000000 ms and next = 1700028800000 ms: exactly 8.
\<close>

theorem interval_calculator:
  "calculateFundingInterval None n = None \<and>
   calculateFundingInterval c None = None \<and>
   calculateFundingInterval (Some 0) n = None \<and>
   calculateFundingInterval c (Some 0) = None \<and>
   (x \<noteq> 0 \<and> y \<noteq> 0 \<longrightarrow>
      calculateFundingInterval (Some x) (Some y) = Some (Math_round ((y - x) / 3600000)) \<and>
      real_of_int (Math_round ((y - x) / 3600000)) - 1 / 2 \<le> (y - x) / 3600000 \<and>
      (y - x) / 3600000 < real_of_int (Math_round ((y - x) / 3600000)) + 1 / 2)"
proof -
  have a: "calculateFundingInterval c None = None" by (cases c) simp_all
  have b: "calculateFundingInterval (Some 0) n = None" by (cases n) simp_all
  have d: "calculateFundingInterval c (Some 0) = None" by (cases c) simp_all
  show ?thesis using a b d Math_round_nearest [of "(y - x) / 3600000"] by simp
qed

theorem interval_calculator_witness:
  "calculateFundingInterval (Some 1700000000000) (Some 1700028800000) = Some 8"
  using interval_calculator [of _ _ 1700000000000 1700028800000]
  by (simp add: Math_round_def)

text \<open>
  Claim C2 as stated fails where a timestamp is present and equal to 0: with current = 0 and
  next = 3600000 both instants are given and one hour apart, the rounded difference is 1, and
  the function returns \<^verbatim>\<open>null\<close>.
\<close>

theorem interval_calculator_zero_counterexample:
  "calculateFundingInterval (Some 0) (Some 3600000) = None \<and>
   Math_round ((3600000 - 0) / 3600000) = 1"
  by (simp add: Math_round_def)

text \<open>
  Claim C10. A timestamp equal to 0 is treated as a missing one (the result is \<^verbatim>\<open>null\<close>); when
  both timestamps are present and next is not after current, the result is 0 or a negative
  integer; the function enforces no range at all, every integer being the result of some pair
  of timestamps; the range (0, 24] is tested where the function is called, in methods 1 to 3 of
  \<^verbatim>\<open>fetchBinanceFundingRates\<close>.
\<close>

theorem calculator_falsy_and_unclamped:
  "calculateFundingInterval (Some 0) n = calculateFundingInterval None n \<and>
   calculateFundingInterval c (Some 0) = calculateFundingInterval c None \<and>
   calculateFundingInterval (Some 0) n = None \<and>
   calculateFundingInterval c (Some 0) = None \<and>
   (x \<noteq> 0 \<and> y \<noteq> 0 \<and> y \<le> x \<longrightarrow>
      (\<exists>k. calculateFundingInterval (Some x) (Some y) = Some k \<and> k \<le> 0)) \<and>
   (\<exists>a b. calculateFundingInterval (Some a) (Some b) = Some k) \<and>
   (method1 data = Some h \<longrightarrow> 0 < h \<and> h \<le> 24) \<and>
   (method2 data = Some h \<longrightarrow> 0 < h \<and> h \<le> 24) \<and>
   (method3 hist symb = Some h \<longrightarrow> 0 < h \<and> h \<le> 24)"
proof -
  have a: "calculateFundingInterval c None = None" by (cases c) simp_all
  have b: "calculateFundingInterval (Some 0) n = None" by (cases n) simp_all
  have d: "calculateFundingInterval c (Some 0) = None" by (cases c) simp_all
  have e: "x \<noteq> 0 \<and> y \<noteq> 0 \<and> y \<le> x \<longrightarrow>
      (\<exists>k. calculateFundingInterval (Some x) (Some y) = Some k \<and> k \<le> 0)"
  proof
    assume h: "x \<noteq> 0 \<and> y \<noteq> 0 \<and> y \<le> x"
    then have "(y - x) / 3600000 \<le> 0" by simp
    then have "Math_round ((y - x) / 3600000) \<le> 0"
      unfolding Math_round_def by linarith
    with h show "\<exists>k. calculateFundingInterval (Some x) (Some y) = Some k \<and> k \<le> 0"
      by simp
  qed
  have f: "\<exists>a b. calculateFundingInterval (Some a) (Some b) = Some k"
    using calculate_any_integer by blast
  have n0: "calculateFundingInterval None n = None" by simp
  show ?thesis
    unfolding a b d n0
    using e f method1_in_range [of data h] method2_in_range [of data h]
      method3_in_range [of hist symb h] by blast
qed

theorem calculator_falsy_and_unclamped_witness:
  "calculateFundingInterval (Some 0) (Some 1700000000000) = None \<and>
   calculateFundingInterval (Some 1700028800000) (Some 1700000000000) = Some (- 8) \<and>
   calculateFundingInterval (Some 1700000000000) (Some 1700360000000) = Some 100"
proof -
  have "\<exists>k. calculateFundingInterval (Some 1700028800000) (Some 1700000000000) = Some k \<and> k \<le> 0"
    using calculator_falsy_and_unclamped [of _ _ 1700028800000 1700000000000] by simp
  then show ?thesis by (simp add: Math_round_def)
qed

section \<open>Properties of the inference chain\<close>

lemma smart_fallback_values: "smart_fallback symb baseSymbol \<in> {1, 2, 4, 8}"
  by (simp add: smart_fallback_def Let_def)

lemma smart_fallback_range: "0 < smart_fallback symb baseSymbol \<and> smart_fallback symb baseSymbol \<le> 24"
  using smart_fallback_values [of symb baseSymbol] by auto

lemma smart_fallback_base_only: "smart_fallback symb baseSymbol = smart_fallback symb' baseSymbol"
  by (simp add: smart_fallback_def Let_def)

lemma truthy_int_method1: "truthy_int (method1 data) \<longleftrightarrow> method1 data \<noteq> None"
  using method1_in_range [of data] by (cases "method1 data") (auto simp: truthy_int_def)

lemma truthy_int_method2: "truthy_int (method2 data) \<longleftrightarrow> method2 data \<noteq> None"
  using method2_in_range [of data] by (cases "method2 data") (auto simp: truthy_int_def)

lemma truthy_int_method3: "truthy_int (method3 hist symb) \<longleftrightarrow> method3 hist symb \<noteq> None"
  using method3_in_range [of hist symb] by (cases "method3 hist symb") (auto simp: truthy_int_def)

lemma infer_chain:
  "inferFundingInterval hist pc symb baseSymbol data =
     (case method1 data of
        Some k \<Rightarrow> (Some k, False)
      | None \<Rightarrow>
          (case method2 data of
             Some k \<Rightarrow> (Some k, False)
           | None \<Rightarrow>
               if pc < 50
               then (case method3 hist symb of
                       Some k \<Rightarrow> (Some k, True)
                     | None \<Rightarrow> (Some (smart_fallback symb baseSymbol), True))
               else (Some (smart_fallback symb baseSymbol), False)))"
proof (cases "method1 data")
  case (Some k)
  then show ?thesis
    using truthy_int_method1 [of data] by (simp add: inferFundingInterval_def Let_def)
next
  case m1: None
  show ?thesis
  proof (cases "method2 data")
    case (Some k)
    then show ?thesis
      using m1 truthy_int_method1 [of data] truthy_int_method2 [of data]
      by (simp add: inferFundingInterval_def Let_def)
  next
    case m2: None
    show ?thesis
    proof (cases "method3 hist symb")
      case None
      then show ?thesis
        using m1 m2 by (simp add: inferFundingInterval_def Let_def truthy_int_def)
    next
      case (Some k)
      then show ?thesis
        using m1 m2 truthy_int_method3 [of hist symb]
        by (simp add: inferFundingInterval_def Let_def truthy_int_def)
    qed
  qed
qed

lemma infer_in_range:
  "\<exists>k. fst (inferFundingInterval hist pc symb baseSymbol data) = Some k \<and> 0 < k \<and> k \<le> 24"
  unfolding infer_chain
  using method1_in_range [of data] method2_in_range [of data] method3_in_range [of hist symb]
    smart_fallback_range [of symb baseSymbol]
  by (auto split: option.splits)

lemma infer_requested:
  "snd (inferFundingInterval hist pc symb baseSymbol data) \<longleftrightarrow>
     method1 data = None \<and> method2 data = None \<and> pc < 50"
  unfolding infer_chain by (auto split: option.splits)

lemma foldl_invariant:
  assumes "P init" and "\<And>st x. P st \<Longrightarrow> P (f st x)"
  shows "P (foldl f init xs)"
  using assms(1) by (induction xs arbitrary: init) (simp_all add: assms(2))

lemma loop_invariant_initial: "loop_invariant fundingRates initial_state"
  by (simp add: loop_invariant_def initial_state_def)

lemma loop_invariant_step:
  assumes "loop_invariant fundingRates st"
  shows "loop_invariant fundingRates (binance_step hist fundingRates st symb)"
proof (cases "map_of fundingRates symb")
  case None
  then show ?thesis using assms by (simp add: binance_step_def)
next
  case (Some entry)
  show ?thesis
  proof (cases entry)
    case None
    then show ?thesis using Some assms by (simp add: binance_step_def)
  next
    case inner: (Some data)
    show ?thesis
    proof (cases "fi_fundingRate data = Undefined")
      case True
      then show ?thesis using Some inner assms by (simp add: binance_step_def)
    next
      case False
      obtain k where k: "fst (inferFundingInterval hist (processedCount st) symb
          (str_replace (split_colon_first symb) ''/USDT'' []) data) = Some k" "0 < k" "k \<le> 24"
        using infer_in_range by blast
      have req: "snd (inferFundingInterval hist (processedCount st) symb
          (str_replace (split_colon_first symb) ''/USDT'' []) data) \<longleftrightarrow>
          method1 data = None \<and> method2 data = None \<and> processedCount st < 50"
        by (rule infer_requested)
      show ?thesis
        using Some inner False assms k req
        by (auto simp: binance_step_def Let_def loop_invariant_def binance_record_def)
    qed
  qed
qed

lemma loop_invariant_run: "loop_invariant fundingRates (binance_loop ex fundingRates)"
  unfolding binance_loop_def
  by (rule foldl_invariant [where P = "loop_invariant fundingRates"])
     (simp_all add: loop_invariant_initial loop_invariant_step)

lemma binance_try_cases:
  "fetchBinanceFundingRates_try lc ex = Inl Thrown \<or>
   fetchBinanceFundingRates_try lc ex = Inr initial_state \<or>
   (\<exists>fundingRates. ex_fetchFundingRates ex = Returns (Some fundingRates) \<and>
      fetchBinanceFundingRates_try lc ex =
      Inr ((binance_loop ex fundingRates)
             \<lparr>result := sort_by (by_symbol lc) (result (binance_loop ex fundingRates))\<rparr>))"
  by (auto simp: fetchBinanceFundingRates_try_def Let_def split: outcome.splits option.splits)

lemma method1_iff:
  "method1 data = Some k \<longleftrightarrow>
     calculateFundingInterval (fi_fundingTimestamp data) (fi_nextFundingTime data) = Some k \<and>
     0 < k \<and> k \<le> 24"
  by (cases "fi_fundingTimestamp data"; cases "fi_nextFundingTime data")
     (auto simp: method1_def truthy_def in_range_def Let_def)

lemma method2_iff:
  "method2 data = Some k \<longleftrightarrow>
     calculateFundingInterval (Date_getTime (fi_fundingDatetime data))
       (Date_getTime (fi_nextFundingDatetime data)) = Some k \<and> 0 < k \<and> k \<le> 24"
proof -
  have a: "Date_getTime d = Some t \<Longrightarrow> truthy_str d" for d t
    by (cases d rule: Date_getTime.cases) simp_all
  show ?thesis
    by (cases "Date_getTime (fi_fundingDatetime data)";
        cases "Date_getTime (fi_nextFundingDatetime data)")
       (auto simp: method2_def in_range_def Let_def a)
qed

lemma method3_iff:
  "method3 hist symb = Some k \<longleftrightarrow>
     getFundingIntervalForSymbol hist symb = Some k \<and> 0 < k \<and> k \<le> 24"
  by (auto simp: method3_def in_range_def Let_def)

lemma binance_requests_bounded: "length (binance_history_requests lc ex) \<le> 50"
proof -
  have "length (historyRequests (binance_loop ex frs)) \<le> 50" for frs
    using loop_invariant_run [of frs ex] by (simp add: loop_invariant_def)
  then show ?thesis
    using binance_try_cases [of lc ex]
    by (auto simp: binance_history_requests_def initial_state_def)
qed

lemma binance_requests_needed:
  "\<forall>s \<in> set (binance_history_requests lc ex).
      \<exists>fundingRates data. ex_fetchFundingRates ex = Returns (Some fundingRates) \<and>
        map_of fundingRates s = Some (Some data) \<and> method1 data = None \<and> method2 data = None"
proof -
  have "\<forall>s \<in> set (historyRequests (binance_loop ex frs)).
      \<exists>data. map_of frs s = Some (Some data) \<and> method1 data = None \<and> method2 data = None"
    for frs
    using loop_invariant_run [of frs ex] by (simp add: loop_invariant_def)
  then show ?thesis
    using binance_try_cases [of lc ex]
    by (auto simp: binance_history_requests_def initial_state_def)
qed

text \<open>
  Claim C3, for the chain of \<^verbatim>\<open>fetchBinanceFundingRates\<close> in src/api/funding-rates.js. The four
  methods are tried in priority order: the timestamp pair is taken when it lies in (0, 24];
  otherwise the datetime pair when it lies in (0, 24]; otherwise, while fewer than 50 records
  have been pushed, the history is requested and its interval taken when it lies in (0, 24];
  otherwise the heuristic. The history is requested only when methods 1 and 2 gave nothing
  (the second component of the result), each method keeps exactly the candidates in (0, 24],
  and one call of the adapter sends at most 50 history requests, each for an instrument on
  which methods 1 and 2 gave nothing.
\<close>

theorem inference_chain:
  "(method1 data = Some k \<longrightarrow>
      inferFundingInterval hist pc symb baseSymbol data = (Some k, False)) \<and>
   (method1 data = None \<and> method2 data = Some k \<longrightarrow>
      inferFundingInterval hist pc symb baseSymbol data = (Some k, False)) \<and>
   (method1 data = None \<and> method2 data = None \<and> pc < 50 \<and> method3 hist symb = Some k \<longrightarrow>
      inferFundingInterval hist pc symb baseSymbol data = (Some k, True)) \<and>
   (method1 data = None \<and> method2 data = None \<and> pc < 50 \<and> method3 hist symb = None \<longrightarrow>
      inferFundingInterval hist pc symb baseSymbol data =
        (Some (smart_fallback symb baseSymbol), True)) \<and>
   (method1 data = None \<and> method2 data = None \<and> \<not> pc < 50 \<longrightarrow>
      inferFundingInterval hist pc symb baseSymbol data =
        (Some (smart_fallback symb baseSymbol), False)) \<and>
   (method1 data = Some k \<longleftrightarrow>
      calculateFundingInterval (fi_fundingTimestamp data) (fi_nextFundingTime data) = Some k \<and>
      0 < k \<and> k \<le> 24) \<and>
   (method2 data = Some k \<longleftrightarrow>
      calculateFundingInterval (Date_getTime (fi_fundingDatetime data))
        (Date_getTime (fi_nextFundingDatetime data)) = Some k \<and> 0 < k \<and> k \<le> 24) \<and>
   (method3 hist symb = Some k \<longleftrightarrow>
      getFundingIntervalForSymbol hist symb = Some k \<and> 0 < k \<and> k \<le> 24) \<and>
   length (binance_history_requests lc ex) \<le> 50 \<and>
   (\<forall>s \<in> set (binance_history_requests lc ex).
      \<exists>fundingRates d. ex_fetchFundingRates ex = Returns (Some fundingRates) \<and>
        map_of fundingRates s = Some (Some d) \<and> method1 d = None \<and> method2 d = None)"
proof -
  have chain:
    "(method1 data = Some k \<longrightarrow>
        inferFundingInterval hist pc symb baseSymbol data = (Some k, False)) \<and>
     (method1 data = None \<and> method2 data = Some k \<longrightarrow>
        inferFundingInterval hist pc symb baseSymbol data = (Some k, False)) \<and>
     (method1 data = None \<and> method2 data = None \<and> pc < 50 \<and> method3 hist symb = Some k \<longrightarrow>
        inferFundingInterval hist pc symb baseSymbol data = (Some k, True)) \<and>
     (method1 data = None \<and> method2 data = None \<and> pc < 50 \<and> method3 hist symb = None \<longrightarrow>
        inferFundingInterval hist pc symb baseSymbol data =
          (Some (smart_fallback symb baseSymbol), True)) \<and>
     (method1 data = None \<and> method2 data = None \<and> \<not> pc < 50 \<longrightarrow>
        inferFundingInterval hist pc symb baseSymbol data =
          (Some (smart_fallback symb baseSymbol), False))"
    unfolding infer_chain by simp
  show ?thesis
    by (intro conjI chain [THEN conjunct1] chain [THEN conjunct2, THEN conjunct1]
        chain [THEN conjunct2, THEN conjunct2, THEN conjunct1]
        chain [THEN conjunct2, THEN conjunct2, THEN conjunct2, THEN conjunct1]
        chain [THEN conjunct2, THEN conjunct2, THEN conjunct2, THEN conjunct2]
        method1_iff method2_iff method3_iff binance_requests_bounded binance_requests_needed)
qed

theorem inference_chain_witness:
  "inferFundingInterval (\<lambda>s. Returns (Some [Some 1700000000000, Some 1700014400000])) 0
     ''ABC/USDT:USDT'' ''ABC'' (sample_info (Num 0.0001) None None) = (Some 4, True)"
proof -
  let ?hist = "\<lambda>s :: string. Returns (Some [Some (1700000000000 :: real), Some 1700014400000])"
  let ?data = "sample_info (Num 0.0001) None None"
  have m1: "method1 ?data = None" by (simp add: method1_def sample_info_def truthy_def)
  have m2: "method2 ?data = None" by (simp add: method2_def sample_info_def)
  have m3: "method3 ?hist ''ABC/USDT:USDT'' = Some 4"
    by (simp add: method3_def getFundingIntervalForSymbol_def Math_round_def in_range_def)
  show ?thesis
    using inference_chain [of ?data 4 ?hist 0 "''ABC/USDT:USDT''" "''ABC''"] m1 m2 m3 by simp
qed

text \<open>
  Claim C3 as stated fails on the chain of part_000 (lines 154 to 177), which has no range test:
  a timestamp pair 100 hours apart is accepted as the interval, and no later method is asked.
\<close>

theorem inference_part000_counterexample:
  "inferFundingInterval_part000 (\<lambda>s. Throws) ''ABC/USDT:USDT''
     (sample_info (Num 0.0001) (Some 1700000000000) (Some 1700360000000)) = Some 100 \<and>
   \<not> waits_for_history_part000
     (sample_info (Num 0.0001) (Some 1700000000000) (Some 1700360000000))"
  by (simp add: inferFundingInterval_part000_def waits_for_history_part000_def
      timestamp_interval_part000_def sample_info_def truthy_def truthy_int_def Math_round_def)

text \<open>
  Claim C4, as the code has it. Method 4 returns a value in {1, 2, 4, 8} that depends on the base
  symbol alone. The rules apply in order: a name on the high-frequency list or matching a meme
  pattern gives 1; a name that did not get 1 and is on the major list or starts with
  \<^verbatim>\<open>1000\<close> gives 8; every other name gives 2 when it has 7 characters or more, and 4
  otherwise.
\<close>

theorem heuristic_fallback:
  "smart_fallback symb baseSymbol \<in> {1, 2, 4, 8} \<and>
   smart_fallback symb baseSymbol = smart_fallback symb' baseSymbol \<and>
   (baseSymbol \<in> set likely1HCoins \<or> isMemeOrVolatile baseSymbol \<longrightarrow>
      smart_fallback symb baseSymbol = 1) \<and>
   (\<not> (baseSymbol \<in> set likely1HCoins \<or> isMemeOrVolatile baseSymbol) \<and>
    (baseSymbol \<in> set major8HCoins \<or> startsWith baseSymbol ''1000'') \<longrightarrow>
      smart_fallback symb baseSymbol = 8) \<and>
   (\<not> (baseSymbol \<in> set likely1HCoins \<or> isMemeOrVolatile baseSymbol) \<and>
    \<not> (baseSymbol \<in> set major8HCoins \<or> startsWith baseSymbol ''1000'') \<longrightarrow>
      smart_fallback symb baseSymbol = (if length baseSymbol \<ge> 7 then 2 else 4))"
proof -
  have a: "smart_fallback symb baseSymbol \<in> {1, 2, 4, 8}" by (rule smart_fallback_values)
  have b: "smart_fallback symb baseSymbol = smart_fallback symb' baseSymbol"
    by (rule smart_fallback_base_only)
  have c: "baseSymbol \<in> set likely1HCoins \<or> isMemeOrVolatile baseSymbol \<longrightarrow>
      smart_fallback symb baseSymbol = 1"
    by (simp add: smart_fallback_def Let_def)
  have d: "\<not> (baseSymbol \<in> set likely1HCoins \<or> isMemeOrVolatile baseSymbol) \<and>
    (baseSymbol \<in> set major8HCoins \<or> startsWith baseSymbol ''1000'') \<longrightarrow>
      smart_fallback symb baseSymbol = 8"
    by (simp add: smart_fallback_def Let_def)
  have e: "\<not> (baseSymbol \<in> set likely1HCoins \<or> isMemeOrVolatile baseSymbol) \<and>
    \<not> (baseSymbol \<in> set major8HCoins \<or> startsWith baseSymbol ''1000'') \<longrightarrow>
      smart_fallback symb baseSymbol = (if length baseSymbol \<ge> 7 then 2 else 4)"
    by (auto simp: smart_fallback_def Let_def)
  from a b c d e show ?thesis by blast
qed

lemma BTC_facts:
  "''BTC'' \<notin> set likely1HCoins" "\<not> isMemeOrVolatile ''BTC''" "''BTC'' \<in> set major8HCoins"
  by (simp_all add: likely1HCoins_def isMemeOrVolatile_def major8HCoins_def)

theorem heuristic_fallback_witness:
  "smart_fallback ''BTC/USDT:USDT'' ''BTC'' = 8 \<and>
   smart_fallback ''PENGU/USDT:USDT'' ''PENGU'' = 1 \<and>
   smart_fallback ''ARKM/USDT:USDT'' ''ARKM'' = 4 \<and>
   smart_fallback ''POLYGON/USDT:USDT'' ''POLYGON'' = 2"
proof -
  have btc: "smart_fallback ''BTC/USDT:USDT'' ''BTC'' = 8"
    using heuristic_fallback [of "''BTC/USDT:USDT''" "''BTC''"] BTC_facts by blast
  have pengu: "smart_fallback ''PENGU/USDT:USDT'' ''PENGU'' = 1"
    using heuristic_fallback [of "''PENGU/USDT:USDT''" "''PENGU''"]
    by (simp add: likely1HCoins_def)
  have arkm: "smart_fallback ''ARKM/USDT:USDT'' ''ARKM'' = 4"
    using heuristic_fallback [of "''ARKM/USDT:USDT''" "''ARKM''"]
    by (simp add: likely1HCoins_def isMemeOrVolatile_def major8HCoins_def startsWith_def)
  have polygon: "smart_fallback ''POLYGON/USDT:USDT'' ''POLYGON'' = 2"
    using heuristic_fallback [of "''POLYGON/USDT:USDT''" "''POLYGON''"]
    by (simp add: likely1HCoins_def isMemeOrVolatile_def major8HCoins_def startsWith_def)
  from btc pengu arkm polygon show ?thesis by blast
qed

text \<open>
  Claim C4 as stated fails for names of the second rule that also match the first:
  \<^verbatim>\<open>DOGE\<close> is on the major list and \<^verbatim>\<open>1000PEPE\<close> starts with \<^verbatim>\<open>1000\<close>, and both get 1, not 8.
\<close>

theorem heuristic_major_list_counterexample:
  "''DOGE'' \<in> set major8HCoins \<and> smart_fallback ''DOGE/USDT:USDT'' ''DOGE'' = 1 \<and>
   startsWith ''1000PEPE'' ''1000'' \<and> smart_fallback ''1000PEPE/USDT:USDT'' ''1000PEPE'' = 1"
  by (simp add: smart_fallback_def major8HCoins_def isMemeOrVolatile_def startsWith_def)

section \<open>Properties of the adapters\<close>

text \<open>The equations that evaluate the adapters on a sample input.\<close>

lemmas binance_eval =
  fetchBinanceFundingRates_def fetchBinanceFundingRates_try_def binance_loop_def sample_exchange_def
  binance_symbols_def binance_step_def initial_state_def sort_by_def inferFundingInterval_def
  method1_def method2_def method3_def getFundingIntervalForSymbol_def sample_info_def
  truthy_def truthy_int_def in_range_def Math_round_def Let_def split_colon_first_def
  smart_fallback_def likely1HCoins_def isMemeOrVolatile_def major8HCoins_def startsWith_def
  by_symbol_def

lemmas mexc_eval =
  fetchMexcFundingRates_def fetchMexcFundingRates_try_def mexc_pushed_def sample_exchange_def
  mexc_item_records_def mexc_interval_def sample_item_def toUpperCase_def toUpperCase_char_def
  sort_by_def by_symbol_def Let_def js_or_def truthy_def

lemmas table_eval =
  comparisonTable_def allSymbols_def lookup_map_def Object_keys_def Set_of_def is_array_index_def
  is_digit_def decimal_value_def compare_symbol_def comparison_entry_def sort_by_def
  difference_value_def sample_record_def rate_or_zero_def toFixed6_def Let_def

lemma binance_rates_cases:
  "fetchBinanceFundingRates lc ex = [] \<or>
   (\<exists>fundingRates. fetchBinanceFundingRates lc ex =
      sort_by (by_symbol lc) (result (binance_loop ex fundingRates)))"
  using binance_try_cases [of lc ex]
  by (auto simp: fetchBinanceFundingRates_def initial_state_def)

lemma mexc_rates_cases:
  "fetchMexcFundingRates lc endpoint ex = [] \<or>
   fetchMexcFundingRates lc endpoint ex = sort_by (by_symbol lc) (mexc_pushed endpoint ex)"
  by (cases "ex_loadMarkets ex")
     (simp_all add: fetchMexcFundingRates_def fetchMexcFundingRates_try_def)

lemma binance_records_in_range:
  "\<forall>r \<in> set (fetchBinanceFundingRates lc ex).
      \<exists>k. fundingIntervalHours r = Some (real_of_int k) \<and> 0 < k \<and> k \<le> 24"
proof -
  have "\<forall>r \<in> set (result (binance_loop ex frs)).
      \<exists>k. fundingIntervalHours r = Some (real_of_int k) \<and> 0 < k \<and> k \<le> 24" for frs
    using loop_invariant_run [of frs ex] by (simp add: loop_invariant_def)
  then show ?thesis
    using binance_rates_cases [of lc ex] by (auto simp: set_sort_by)
qed

lemma mexc_interval_nonzero: "mexc_interval item \<noteq> 0"
  by (simp add: mexc_interval_def split: option.splits)

lemma mexc_item_interval:
  "r \<in> set (mexc_item_records item) \<Longrightarrow> fundingIntervalHours r = Some (mexc_interval item)"
  by (cases "mi_symbol item") (simp_all add: mexc_item_records_def Let_def split: if_splits)

lemma mexc_ticker_interval:
  "r \<in> set (mexc_ticker_fallback ex) \<Longrightarrow> fundingIntervalHours r = Some 8"
  by (auto simp: mexc_ticker_fallback_def mexc_ticker_record_def split: outcome.splits)

lemma mexc_pushed_sources:
  "set (mexc_pushed endpoint ex) \<subseteq>
     set (mexc_ticker_fallback ex) \<union> (\<Union>item. set (mexc_item_records item))"
proof (cases endpoint)
  case Throws
  then show ?thesis by (simp add: mexc_pushed_def)
next
  case (Returns data)
  show ?thesis
  proof (cases "mr_success data")
    case False
    with Returns show ?thesis by (simp add: mexc_pushed_def)
  next
    case True
    show ?thesis
    proof (cases "mr_data data")
      case None
      with Returns True show ?thesis by (simp add: mexc_pushed_def)
    next
      case (Some items)
      with Returns True show ?thesis by (auto simp: mexc_pushed_def)
    qed
  qed
qed

lemma mexc_pushed_interval:
  assumes "r \<in> set (mexc_pushed endpoint ex)"
  shows "\<exists>h. fundingIntervalHours r = Some h \<and> h \<noteq> 0"
proof -
  from assms mexc_pushed_sources [of endpoint ex]
  consider "r \<in> set (mexc_ticker_fallback ex)" | item where "r \<in> set (mexc_item_records item)"
    by blast
  then show ?thesis
  proof cases
    case 1
    then show ?thesis using mexc_ticker_interval [of r ex] by simp
  next
    case 2
    then show ?thesis using mexc_item_interval [of r item] mexc_interval_nonzero [of item] by simp
  qed
qed

lemma mexc_records_interval:
  "\<forall>r \<in> set (fetchMexcFundingRates lc endpoint ex). \<exists>h. fundingIntervalHours r = Some h \<and> h \<noteq> 0"
  using mexc_rates_cases [of lc endpoint ex] mexc_pushed_interval [of _ endpoint ex]
  by (auto simp: set_sort_by)

text \<open>
  Claim C5, as the code has it. Every record that \<^verbatim>\<open>fetchBinanceFundingRates\<close> of
  src/api/funding-rates.js returns has an interval that is an integer in (0, 24]: a candidate of
  methods 1 to 3 outside that range is dropped, and the chain goes on to the next method. Every
  record that \<^verbatim>\<open>fetchMexcFundingRates\<close> returns has an interval that is neither \<^verbatim>\<open>null\<close> nor 0:
  it is the \<^verbatim>\<open>collectCycle\<close> of the item when that is a number other than 0, whatever its
  size, and 8 otherwise.
\<close>

theorem interval_populated:
  "(\<forall>r \<in> set (fetchBinanceFundingRates lc ex).
      \<exists>k. fundingIntervalHours r = Some (real_of_int k) \<and> 0 < k \<and> k \<le> 24) \<and>
   (calculateFundingInterval (fi_fundingTimestamp data) (fi_nextFundingTime data) = Some k \<and>
    \<not> (0 < k \<and> k \<le> 24) \<longrightarrow> method1 data = None) \<and>
   (calculateFundingInterval (Date_getTime (fi_fundingDatetime data))
      (Date_getTime (fi_nextFundingDatetime data)) = Some k \<and>
    \<not> (0 < k \<and> k \<le> 24) \<longrightarrow> method2 data = None) \<and>
   (getFundingIntervalForSymbol hist symb = Some k \<and> \<not> (0 < k \<and> k \<le> 24) \<longrightarrow>
      method3 hist symb = None) \<and>
   (\<forall>r \<in> set (fetchMexcFundingRates lc endpoint ex').
      \<exists>h. fundingIntervalHours r = Some h \<and> h \<noteq> 0) \<and>
   (\<forall>r \<in> set (mexc_item_records item).
      fundingIntervalHours r =
        Some (case mi_collectCycle item of Some c \<Rightarrow> if c \<noteq> 0 then c else 8 | None \<Rightarrow> 8))"
proof -
  have m1: "calculateFundingInterval (fi_fundingTimestamp data) (fi_nextFundingTime data) = Some k \<and>
    \<not> (0 < k \<and> k \<le> 24) \<longrightarrow> method1 data = None"
    by (simp add: method1_def Let_def in_range_def)
  have m2: "calculateFundingInterval (Date_getTime (fi_fundingDatetime data))
      (Date_getTime (fi_nextFundingDatetime data)) = Some k \<and>
    \<not> (0 < k \<and> k \<le> 24) \<longrightarrow> method2 data = None"
    by (simp add: method2_def Let_def in_range_def)
  have m3: "getFundingIntervalForSymbol hist symb = Some k \<and> \<not> (0 < k \<and> k \<le> 24) \<longrightarrow>
      method3 hist symb = None"
    by (simp add: method3_def Let_def in_range_def)
  have mx: "\<forall>r \<in> set (mexc_item_records item).
      fundingIntervalHours r =
        Some (case mi_collectCycle item of Some c \<Rightarrow> if c \<noteq> 0 then c else 8 | None \<Rightarrow> 8)"
    using mexc_item_interval [of _ item] by (simp add: mexc_interval_def)
  show ?thesis
    by (intro conjI binance_records_in_range m1 m2 m3 mexc_records_interval mx)
qed

theorem interval_populated_witness:
  "fetchBinanceFundingRates code_unit_compare
     (sample_exchange
        [(''ABC/USDT:USDT'',
          Some (sample_info (Num 0.0001) (Some 1700000000000) (Some 1700360000000)))]
        [] (\<lambda>s. Throws)) =
   [binance_record ''ABC/USDT:USDT'' ''ABC''
      (sample_info (Num 0.0001) (Some 1700000000000) (Some 1700360000000)) (Some 4)] \<and>
   (\<exists>k. fundingIntervalHours (binance_record ''ABC/USDT:USDT'' ''ABC''
      (sample_info (Num 0.0001) (Some 1700000000000) (Some 1700360000000)) (Some 4)) =
        Some (real_of_int k) \<and> 0 < k \<and> k \<le> 24)"
proof -
  let ?ex = "sample_exchange
        [(''ABC/USDT:USDT'',
          Some (sample_info (Num 0.0001) (Some 1700000000000) (Some 1700360000000)))]
        [] (\<lambda>s. Throws)"
  let ?r = "binance_record ''ABC/USDT:USDT'' ''ABC''
      (sample_info (Num 0.0001) (Some 1700000000000) (Some 1700360000000)) (Some 4)"
  have run: "fetchBinanceFundingRates code_unit_compare ?ex = [?r]"
    by (simp add: binance_eval)
  then have mem: "?r \<in> set (fetchBinanceFundingRates code_unit_compare ?ex)" by simp
  have "\<forall>r \<in> set (fetchBinanceFundingRates code_unit_compare ?ex).
      \<exists>k. fundingIntervalHours r = Some (real_of_int k) \<and> 0 < k \<and> k \<le> 24"
    by (rule interval_populated [of code_unit_compare ?ex, THEN conjunct1])
  then have "\<exists>k. fundingIntervalHours ?r = Some (real_of_int k) \<and> 0 < k \<and> k \<le> 24"
    using mem by (rule bspec)
  with run show ?thesis by (rule conjI)
qed

text \<open>
  Claim C5 as stated fails on the MEXC adapter, which takes \<^verbatim>\<open>collectCycle\<close> without a range
  test: an item with \<^verbatim>\<open>collectCycle\<close> 48 gives a record whose interval is 48.
\<close>

theorem mexc_collectCycle_counterexample:
  "map fundingIntervalHours
     (fetchMexcFundingRates code_unit_compare
        (Returns \<lparr>mr_success = True,
                   mr_data = Some [sample_item ''BTC_USDT'' (Some 48) (Some 0.0001)]\<rparr>)
        (sample_exchange [] [] (\<lambda>s. Throws))) = [Some 48]"
  by (simp add: mexc_eval)

lemma foldl_add_rates:
  "foldl (\<lambda>total item. total + rate_or_zero (fundingRate item)) a rs =
     a + sum_list (map (\<lambda>r. rate_or_zero (fundingRate r)) rs)"
  by (induction rs arbitrary: a) simp_all

lemma average_zero_fill:
  "averageFundingRate rs =
     (if rs = [] then 0
      else toFixed6 (sum_list (map (\<lambda>r. rate_or_zero (fundingRate r)) rs) / real (length rs)))"
  by (simp add: averageFundingRate_def foldl_add_rates)

lemma mexc_item_no_rate:
  "mi_fundingRate item = None \<Longrightarrow> r \<in> set (mexc_item_records item) \<Longrightarrow> fundingRate r = None"
  by (cases "mi_symbol item") (simp_all add: mexc_item_records_def Let_def split: if_splits)

text \<open>
  Claim C8, as the code has it. A rate that MEXC's item does not carry is \<^verbatim>\<open>null\<close> in the record,
  as is the rate of every ticker record and the rate of a record of part_000 whose source rate is
  \<^verbatim>\<open>undefined\<close> or \<^verbatim>\<open>null\<close>. \<^verbatim>\<open>fetchBinanceFundingRates\<close> of src/api/funding-rates.js passes over
  an instrument whose rate is \<^verbatim>\<open>undefined\<close> and writes \<^verbatim>\<open>'0.000000'\<close> for a rate that is
  \<^verbatim>\<open>null\<close> or 0. The statistics count a \<^verbatim>\<open>null\<close> rate as 0: the average of part_000 divides
  the sum of \<^verbatim>\<open>parseFloat(rate) || 0\<close> by the number of all records, and the comparison entry
  subtracts the same values.
\<close>

theorem missing_rate_markers:
  "(mi_fundingRate item = None \<longrightarrow> (\<forall>r \<in> set (mexc_item_records item). fundingRate r = None)) \<and>
   fundingRate (mexc_ticker_record symb last_price) = None \<and>
   (fi_fundingRate data = Undefined \<or> fi_fundingRate data = Null \<longrightarrow>
      fundingRate (record_part000 exchangeName hist symb data) = None) \<and>
   (map_of fundingRates symb = Some (Some data) \<and> fi_fundingRate data = Undefined \<longrightarrow>
      binance_step hist fundingRates st symb = st) \<and>
   (fi_fundingRate data = Null \<or> fi_fundingRate data = Num 0 \<longrightarrow>
      fundingRate (binance_record symb baseSymbol data hours) = Some 0) \<and>
   rate_or_zero None = 0 \<and>
   averageFundingRate rs =
     (if rs = [] then 0
      else toFixed6 (sum_list (map (\<lambda>r. rate_or_zero (fundingRate r)) rs) / real (length rs))) \<and>
   fundingRateDifference (comparison_entry symb b m) =
     Val (toFixed6 (rate_or_zero (fundingRate m) - rate_or_zero (fundingRate b)))"
proof -
  have a: "mi_fundingRate item = None \<longrightarrow>
      (\<forall>r \<in> set (mexc_item_records item). fundingRate r = None)"
    using mexc_item_no_rate [of item] by blast
  have b: "fundingRate (mexc_ticker_record symb last_price) = None"
    by (simp add: mexc_ticker_record_def)
  have c: "fi_fundingRate data = Undefined \<or> fi_fundingRate data = Null \<longrightarrow>
      fundingRate (record_part000 exchangeName hist symb data) = None"
    by (auto simp: record_part000_def)
  have d: "map_of fundingRates symb = Some (Some data) \<and> fi_fundingRate data = Undefined \<longrightarrow>
      binance_step hist fundingRates st symb = st"
    by (simp add: binance_step_def)
  have e: "fi_fundingRate data = Null \<or> fi_fundingRate data = Num 0 \<longrightarrow>
      fundingRate (binance_record symb baseSymbol data hours) = Some 0"
    by (auto simp: binance_record_def)
  have f: "rate_or_zero None = 0" by (simp add: rate_or_zero_def)
  have g: "fundingRateDifference (comparison_entry symb b m) =
     Val (toFixed6 (rate_or_zero (fundingRate m) - rate_or_zero (fundingRate b)))"
    by (simp add: comparison_entry_def Let_def)
  show ?thesis by (intro conjI a b c d e f average_zero_fill g)
qed

theorem missing_rate_markers_witness:
  "map fundingRate
     (fetchMexcFundingRates code_unit_compare
        (Returns \<lparr>mr_success = True, mr_data = Some [sample_item ''BTC_USDT'' (Some 8) None]\<rparr>)
        (sample_exchange [] [] (\<lambda>s. Throws))) = [None] \<and>
   fundingRate (binance_record ''ABC/USDT:USDT'' ''ABC'' (sample_info Null None None) (Some 4)) =
     Some 0"
proof -
  have "fi_fundingRate (sample_info Null None None) = Null" by (simp add: sample_info_def)
  then have "fundingRate (binance_record ''ABC/USDT:USDT'' ''ABC'' (sample_info Null None None)
      (Some 4)) = Some 0"
    using missing_rate_markers [of _ _ _ "sample_info Null None None"] by blast
  moreover have "map fundingRate
     (fetchMexcFundingRates code_unit_compare
        (Returns \<lparr>mr_success = True, mr_data = Some [sample_item ''BTC_USDT'' (Some 8) None]\<rparr>)
        (sample_exchange [] [] (\<lambda>s. Throws))) = [None]"
    by (simp add: mexc_eval)
  ultimately show ?thesis by (rule conjI [rotated])
qed

text \<open>
  Claim C8 as stated fails in both places it names: a Binance instrument whose rate is \<^verbatim>\<open>null\<close>
  gets the rate \<^verbatim>\<open>'0.000000'\<close> in its record, and the average of part_000 over a record with
  rate 0.02 and a ticker record, which has no rate, is 0.01. The comparison table does the same:
  against the ticker record the differential of that symbol is 0 - 0.02.
\<close>

theorem zero_default_counterexample:
  "map fundingRate
     (fetchBinanceFundingRates code_unit_compare
        (sample_exchange [(''ABC/USDT:USDT'', Some (sample_info Null None None))] []
           (\<lambda>s. Throws))) = [Some 0] \<and>
   averageFundingRate
     [sample_record ''BINANCE'' ''ABC'' (Some 0.02), mexc_ticker_record ''ABC/USDT'' None] = 0.01 \<and>
   map fundingRateDifference
     (comparisonTable [sample_record ''BINANCE'' ''ABC'' (Some 0.02)]
                      [mexc_ticker_record ''ABC/USDT'' None]) = [Val (- 0.02)]"
proof -
  have a: "map fundingRate
     (fetchBinanceFundingRates code_unit_compare
        (sample_exchange [(''ABC/USDT:USDT'', Some (sample_info Null None None))] []
           (\<lambda>s. Throws))) = [Some 0]"
    by (simp add: binance_eval binance_record_def)
  have b: "averageFundingRate
     [sample_record ''BINANCE'' ''ABC'' (Some 0.02), mexc_ticker_record ''ABC/USDT'' None] = 0.01"
    by (simp add: averageFundingRate_def sample_record_def mexc_ticker_record_def
        rate_or_zero_def toFixed6_def)
  have c: "map fundingRateDifference
     (comparisonTable [sample_record ''BINANCE'' ''ABC'' (Some 0.02)]
                      [mexc_ticker_record ''ABC/USDT'' None]) = [Val (- 0.02)]"
    by (simp add: table_eval mexc_ticker_record_def)
  show ?thesis by (intro conjI a b c)
qed

lemmas part000_eval =
  fetchFundingRates_part000_def fetchFundingRates_try_part000_def batch_part000_def
  history_requests_part000_def waits_for_history_part000_def timestamp_interval_part000_def
  completion_order_def record_part000_def inferFundingInterval_part000_def
  fetchMexcFundingRates_part000_def mexc_batch_part000_def swap_symbols_def mexc_ticker_record_def
  sample_exchange_def sample_info_def truthy_def truthy_int_def Math_round_def Let_def
  split_colon_first_def two_instruments_def two_swaps_def

text \<open>
  Claim C9, as the code has it. With a consistent \<^verbatim>\<open>localeCompare\<close>, what
  \<^verbatim>\<open>fetchBinanceFundingRates\<close>, \<^verbatim>\<open>fetchMexcFundingRates\<close> and \<^verbatim>\<open>fetchFundingRates\<close> of
  src/api/funding-rates.js return is sorted ascending by symbol. These adapters fetch one
  instrument after the other, so their output is a function of the exchange's answers alone.
\<close>

theorem adapters_sorted:
  assumes "consistent_comparator lc"
  shows "sorted_wrt (\<lambda>a b. lc (symbol a) (symbol b) \<le> 0) (fetchBinanceFundingRates lc ex) \<and>
         sorted_wrt (\<lambda>a b. lc (symbol a) (symbol b) \<le> 0) (fetchMexcFundingRates lc endpoint ex') \<and>
         (localeCompare env = lc \<longrightarrow>
            sorted_wrt (\<lambda>a b. lc (symbol a) (symbol b) \<le> 0) (fetchFundingRates env name ex''))"
proof -
  have s: "sorted_wrt (\<lambda>a b. lc (symbol a) (symbol b) \<le> 0) (sort_by (by_symbol lc) rs)" for rs
    by (rule sorted_by_symbol [OF assms])
  have b: "sorted_wrt (\<lambda>a b. lc (symbol a) (symbol b) \<le> 0) (fetchBinanceFundingRates lc e)" for e
    using binance_rates_cases [of lc e] s by auto
  have m: "sorted_wrt (\<lambda>a b. lc (symbol a) (symbol b) \<le> 0) (fetchMexcFundingRates lc ep e)" for ep e
    using mexc_rates_cases [of lc ep e] s by auto
  have f: "localeCompare env = lc \<longrightarrow>
            sorted_wrt (\<lambda>a b. lc (symbol a) (symbol b) \<le> 0) (fetchFundingRates env name ex'')"
    using b [of ex''] m [of "mexc_endpoint env" ex'']
    by (simp add: fetchFundingRates_def fetchFundingRates_try_def)
  show ?thesis by (intro conjI b m f)
qed

theorem adapters_sorted_witness:
  "map symbol (fetchBinanceFundingRates code_unit_compare
     (sample_exchange two_instruments [] (\<lambda>s. Throws))) = [''BTC'', ''ETH''] \<and>
   sorted_wrt (\<lambda>a b. code_unit_compare (symbol a) (symbol b) \<le> 0)
     (fetchBinanceFundingRates code_unit_compare
        (sample_exchange two_instruments [] (\<lambda>s. Throws)))"
proof -
  have a: "map symbol (fetchBinanceFundingRates code_unit_compare
     (sample_exchange two_instruments [] (\<lambda>s. Throws))) = [''BTC'', ''ETH'']"
    by (simp add: binance_eval two_instruments_def binance_record_def)
  have b: "sorted_wrt (\<lambda>a b. code_unit_compare (symbol a) (symbol b) \<le> 0)
     (fetchBinanceFundingRates code_unit_compare
        (sample_exchange two_instruments [] (\<lambda>s. Throws)))"
    by (rule adapters_sorted [OF code_unit_compare_consistent, THEN conjunct1])
  from a b show ?thesis by (rule conjI)
qed

text \<open>
  Claim C9 as stated fails on the adapters of part_000, which return the records in the order
  they were pushed: two instruments listed with ETH first come out as ETH, BTC, and the two
  tickers of a MEXC batch come out in the order their requests complete.
\<close>

theorem part000_unsorted_counterexample:
  "map symbol (fetchFundingRates_part000 (\<lambda>s. 0) ''binance''
     (sample_exchange two_instruments [] (\<lambda>s. Throws))) = [''ETH'', ''BTC''] \<and>
   map symbol (fetchFundingRates_part000 (\<lambda>s. if s = ''ETH/USDT'' then 2 else 1) ''mexc''
     (sample_exchange [] two_swaps (\<lambda>s. Throws))) = [''BTC'', ''ETH''] \<and>
   map symbol (fetchFundingRates_part000 (\<lambda>s. if s = ''ETH/USDT'' then 1 else 2) ''mexc''
     (sample_exchange [] two_swaps (\<lambda>s. Throws))) = [''ETH'', ''BTC'']"
proof -
  have a: "map symbol (fetchFundingRates_part000 (\<lambda>s. 0) ''binance''
     (sample_exchange two_instruments [] (\<lambda>s. Throws))) = [''ETH'', ''BTC'']"
    by (simp add: part000_eval)
  have b: "map symbol (fetchFundingRates_part000 (\<lambda>s. if s = ''ETH/USDT'' then 2 else 1) ''mexc''
     (sample_exchange [] two_swaps (\<lambda>s. Throws))) = [''BTC'', ''ETH'']"
    by (simp add: part000_eval)
  have c: "map symbol (fetchFundingRates_part000 (\<lambda>s. if s = ''ETH/USDT'' then 1 else 2) ''mexc''
     (sample_exchange [] two_swaps (\<lambda>s. Throws))) = [''ETH'', ''BTC'']"
    by (simp add: part000_eval)
  show ?thesis by (intro conjI a b c)
qed

section \<open>Properties of the comparison table\<close>

lemma map_of_obj_put: "map_of (obj_put m k v) k' = (if k' = k then Some v else map_of m k')"
  by (induction m) auto

lemma keys_obj_put: "fst ` set (obj_put m k v) = insert k (fst ` set m)"
  by (induction m k v rule: obj_put.induct) auto

lemma lookup_map_foldl:
  "map_of (foldl (\<lambda>m item. obj_put m (symbol item) item) acc rs) s = Some r \<Longrightarrow>
     (r \<in> set rs \<and> symbol r = s) \<or> map_of acc s = Some r"
proof (induction rs arbitrary: acc)
  case Nil
  then show ?case by simp
next
  case (Cons a rs)
  from Cons.prems
  have "map_of (foldl (\<lambda>m item. obj_put m (symbol item) item) (obj_put acc (symbol a) a) rs) s
          = Some r"
    by simp
  then have "(r \<in> set rs \<and> symbol r = s) \<or> map_of (obj_put acc (symbol a) a) s = Some r"
    by (rule Cons.IH)
  then show ?case
    by (auto simp: map_of_obj_put split: if_splits)
qed

lemma lookup_map_Some: "map_of (lookup_map rs) s = Some r \<Longrightarrow> r \<in> set rs \<and> symbol r = s"
  using lookup_map_foldl [of "[]" rs s r] by (simp add: lookup_map_def)

lemma lookup_keys_foldl:
  "fst ` set (foldl (\<lambda>m item. obj_put m (symbol item) item) acc rs) =
     fst ` set acc \<union> symbol ` set rs"
  by (induction rs arbitrary: acc) (simp_all add: keys_obj_put)

lemma lookup_keys: "fst ` set (lookup_map rs) = symbol ` set rs"
  using lookup_keys_foldl [of "[]" rs] by (simp add: lookup_map_def)

lemma lookup_map_defined:
  "(\<exists>r. map_of (lookup_map rs) s = Some r) \<longleftrightarrow> s \<in> symbol ` set rs"
proof -
  have "(\<exists>r. map_of (lookup_map rs) s = Some r) \<longleftrightarrow> s \<in> fst ` set (lookup_map rs)"
    by (metis domIff dom_map_of_conv_image_fst not_Some_eq)
  then show ?thesis using lookup_keys [of rs] by simp
qed

lemma set_Object_keys: "set (Object_keys obj) = fst ` set obj"
  by (auto simp: Object_keys_def Let_def)

lemma Set_of_foldl:
  "set (foldl (\<lambda>seen k. if k \<in> set seen then seen else seen @ [k]) acc ks) = set acc \<union> set ks"
  by (induction ks arbitrary: acc) auto

lemma set_Set_of: "set (Set_of ks) = set ks"
  by (simp add: Set_of_def Set_of_foldl)

lemma Set_of_distinct_foldl:
  "distinct acc \<Longrightarrow> distinct (foldl (\<lambda>seen k. if k \<in> set seen then seen else seen @ [k]) acc ks)"
  by (induction ks arbitrary: acc) auto

lemma distinct_Set_of: "distinct (Set_of ks)"
  by (simp add: Set_of_def Set_of_distinct_foldl)

lemma set_allSymbols: "set (allSymbols bRates mRates) = symbol ` set bRates \<union> symbol ` set mRates"
  using lookup_keys [of bRates] lookup_keys [of mRates]
  by (simp add: allSymbols_def set_Set_of set_Object_keys)

lemma distinct_allSymbols: "distinct (allSymbols bRates mRates)"
  by (simp add: allSymbols_def distinct_Set_of)

lemma compare_symbol_cases:
  "compare_symbol bm mm s = [] \<or>
   (\<exists>bd md. map_of bm s = Some bd \<and> map_of mm s = Some md \<and>
      (fundingRate bd \<noteq> None \<or> fundingRate md \<noteq> None) \<and>
      compare_symbol bm mm s = [comparison_entry s bd md])"
  by (cases "map_of bm s"; cases "map_of mm s") (simp_all add: compare_symbol_def)

lemma compare_symbol_hit:
  "map_of bm s = Some bd \<Longrightarrow> map_of mm s = Some md \<Longrightarrow>
   fundingRate bd \<noteq> None \<or> fundingRate md \<noteq> None \<Longrightarrow>
   compare_symbol bm mm s = [comparison_entry s bd md]"
  by (simp add: compare_symbol_def)

lemma te_symbol_entry: "te_symbol (comparison_entry s bd md) = s"
  by (simp add: comparison_entry_def Let_def)

lemma set_comparisonTable:
  "set (comparisonTable bRates mRates) =
     (\<Union>s \<in> set (allSymbols bRates mRates).
        set (compare_symbol (lookup_map bRates) (lookup_map mRates) s))"
  by (simp add: comparisonTable_def set_sort_by)

lemma toFixed6_of_int: "toFixed6 (real_of_int k / 10 ^ 6) = real_of_int k / 10 ^ 6"
proof (cases "k < 0")
  case True
  have "\<lfloor>real_of_int (- k) + 1 / 2\<rfloor> = - k" by linarith
  then have "\<lfloor>- real_of_int k + 1 / 2\<rfloor> = - k" by simp
  with True show ?thesis by (simp add: toFixed6_def)
next
  case False
  have "\<lfloor>real_of_int k + 1 / 2\<rfloor> = k" by linarith
  with False show ?thesis by (simp add: toFixed6_def)
qed

lemma toFixed6_is_fixed: "\<exists>k. toFixed6 x = real_of_int k / 10 ^ 6"
proof (cases "x < 0")
  case True
  then have "toFixed6 x = real_of_int (- \<lfloor>(- x) * 10 ^ 6 + 1 / 2\<rfloor>) / 10 ^ 6"
    by (simp add: toFixed6_def)
  then show ?thesis by blast
next
  case False
  then have "toFixed6 x = real_of_int \<lfloor>x * 10 ^ 6 + 1 / 2\<rfloor> / 10 ^ 6"
    by (simp add: toFixed6_def)
  then show ?thesis by blast
qed

lemma toFixed6_difference:
  "toFixed6 (toFixed6 x - toFixed6 y) = toFixed6 x - toFixed6 y"
proof -
  obtain i where i: "toFixed6 x = real_of_int i / 10 ^ 6" using toFixed6_is_fixed by blast
  obtain j where j: "toFixed6 y = real_of_int j / 10 ^ 6" using toFixed6_is_fixed by blast
  have d: "toFixed6 x - toFixed6 y = real_of_int (i - j) / 10 ^ 6"
    by (simp add: i j diff_divide_distrib)
  show ?thesis by (simp only: d toFixed6_of_int)
qed

lemma te_symbol_concat:
  "map te_symbol (concat (map (compare_symbol bm mm) ss)) =
     filter (\<lambda>s. compare_symbol bm mm s \<noteq> []) ss"
proof (induction ss)
  case Nil
  show ?case by simp
next
  case (Cons s ss)
  show ?case
    using compare_symbol_cases [of bm mm s] Cons.IH
    by (auto simp: te_symbol_entry)
qed

lemma distinct_map_insert_by:
  "distinct (map f (insert_by cmp x ys)) \<longleftrightarrow> f x \<notin> f ` set ys \<and> distinct (map f ys)"
  by (induction ys) (auto simp: set_insert_by)

lemma distinct_map_sort_by: "distinct (map f (sort_by cmp xs)) \<longleftrightarrow> distinct (map f xs)"
  unfolding sort_by_def
  by (induction xs) (simp_all add: distinct_map_insert_by set_sort_by [unfolded sort_by_def])

lemma distinct_table_symbols: "distinct (map te_symbol (comparisonTable bRates mRates))"
  by (simp add: comparisonTable_def distinct_map_sort_by te_symbol_concat distinct_allSymbols)

lemma table_entry_origin:
  assumes "e \<in> set (comparisonTable bRates mRates)"
  shows "\<exists>bd md. map_of (lookup_map bRates) (te_symbol e) = Some bd \<and>
           map_of (lookup_map mRates) (te_symbol e) = Some md \<and>
           (fundingRate bd \<noteq> None \<or> fundingRate md \<noteq> None) \<and>
           e = comparison_entry (te_symbol e) bd md"
proof -
  from assms obtain s where s: "e \<in> set (compare_symbol (lookup_map bRates) (lookup_map mRates) s)"
    by (auto simp: set_comparisonTable)
  with compare_symbol_cases [of "lookup_map bRates" "lookup_map mRates" s]
  obtain bd md where h: "map_of (lookup_map bRates) s = Some bd" "map_of (lookup_map mRates) s = Some md"
      "fundingRate bd \<noteq> None \<or> fundingRate md \<noteq> None" "e = comparison_entry s bd md"
    by auto
  then have t: "te_symbol e = s" by (simp add: te_symbol_entry)
  show ?thesis unfolding t using h by blast
qed

lemma table_entry_present:
  assumes "map_of (lookup_map bRates) s = Some bd" "map_of (lookup_map mRates) s = Some md"
    "fundingRate bd \<noteq> None \<or> fundingRate md \<noteq> None"
  shows "comparison_entry s bd md \<in> set (comparisonTable bRates mRates)"
proof -
  have a: "s \<in> set (allSymbols bRates mRates)"
    using lookup_map_Some [OF assms(1)] by (auto simp: set_allSymbols)
  have b: "compare_symbol (lookup_map bRates) (lookup_map mRates) s = [comparison_entry s bd md]"
    by (rule compare_symbol_hit [OF assms])
  show ?thesis unfolding set_comparisonTable by (rule UN_I [OF a]) (simp add: b)
qed

text \<open>
  Claim C1, as the code has it. For a symbol that both record lists hold, the lookup maps give
  one record of each source, and when one of the two rates is not \<^verbatim>\<open>null\<close> the table has exactly
  one entry for the symbol: its differential is rate(MEXC) - rate(Binance) written with six
  decimals, a \<^verbatim>\<open>null\<close> rate counting as 0, and its \<^verbatim>\<open>favorableExchange\<close> is the source whose
  rate is lower (BINANCE when MEXC's rate is higher, MEXC when Binance's rate is higher), or
  EQUAL on a tie. On rates that are themselves written with six decimals the differential is
  exact. For Binance = 0.01 and MEXC = -0.02 the entry has differential -0.03 and
  \<^verbatim>\<open>favorableExchange\<close> MEXC.
\<close>

theorem comparison_differential:
  assumes "s \<in> symbol ` set bRates" and "s \<in> symbol ` set mRates"
  shows "\<exists>bd md.
      map_of (lookup_map bRates) s = Some bd \<and> bd \<in> set bRates \<and> symbol bd = s \<and>
      map_of (lookup_map mRates) s = Some md \<and> md \<in> set mRates \<and> symbol md = s \<and>
      (fundingRate bd \<noteq> None \<or> fundingRate md \<noteq> None \<longrightarrow>
         (\<exists>e. e \<in> set (comparisonTable bRates mRates) \<and> te_symbol e = s) \<and>
         (\<forall>e \<in> set (comparisonTable bRates mRates). te_symbol e = s \<longrightarrow>
            fundingRateDifference e =
              Val (toFixed6 (rate_or_zero (fundingRate md) - rate_or_zero (fundingRate bd))) \<and>
            (rate_or_zero (fundingRate bd) < rate_or_zero (fundingRate md) \<longrightarrow>
               favorableExchange e = BINANCE) \<and>
            (rate_or_zero (fundingRate md) < rate_or_zero (fundingRate bd) \<longrightarrow>
               favorableExchange e = MEXC) \<and>
            (rate_or_zero (fundingRate md) = rate_or_zero (fundingRate bd) \<longrightarrow>
               favorableExchange e = EQUAL))) \<and>
      distinct (map te_symbol (comparisonTable bRates mRates)) \<and>
      toFixed6 (toFixed6 x - toFixed6 y) = toFixed6 x - toFixed6 y"
proof -
  from assms(1) obtain bd where bd: "map_of (lookup_map bRates) s = Some bd"
    using lookup_map_defined [of bRates s] by blast
  from assms(2) obtain md where md: "map_of (lookup_map mRates) s = Some md"
    using lookup_map_defined [of mRates s] by blast
  note bd' = lookup_map_Some [OF bd] and md' = lookup_map_Some [OF md]
  have main: "fundingRate bd \<noteq> None \<or> fundingRate md \<noteq> None \<longrightarrow>
         (\<exists>e. e \<in> set (comparisonTable bRates mRates) \<and> te_symbol e = s) \<and>
         (\<forall>e \<in> set (comparisonTable bRates mRates). te_symbol e = s \<longrightarrow>
            fundingRateDifference e =
              Val (toFixed6 (rate_or_zero (fundingRate md) - rate_or_zero (fundingRate bd))) \<and>
            (rate_or_zero (fundingRate bd) < rate_or_zero (fundingRate md) \<longrightarrow>
               favorableExchange e = BINANCE) \<and>
            (rate_or_zero (fundingRate md) < rate_or_zero (fundingRate bd) \<longrightarrow>
               favorableExchange e = MEXC) \<and>
            (rate_or_zero (fundingRate md) = rate_or_zero (fundingRate bd) \<longrightarrow>
               favorableExchange e = EQUAL))"
  proof
    assume rates: "fundingRate bd \<noteq> None \<or> fundingRate md \<noteq> None"
    have present: "comparison_entry s bd md \<in> set (comparisonTable bRates mRates)"
      by (rule table_entry_present [OF bd md rates])
    have ex: "\<exists>e. e \<in> set (comparisonTable bRates mRates) \<and> te_symbol e = s"
      using present te_symbol_entry [of s bd md] by blast
    have all: "\<forall>e \<in> set (comparisonTable bRates mRates). te_symbol e = s \<longrightarrow>
            fundingRateDifference e =
              Val (toFixed6 (rate_or_zero (fundingRate md) - rate_or_zero (fundingRate bd))) \<and>
            (rate_or_zero (fundingRate bd) < rate_or_zero (fundingRate md) \<longrightarrow>
               favorableExchange e = BINANCE) \<and>
            (rate_or_zero (fundingRate md) < rate_or_zero (fundingRate bd) \<longrightarrow>
               favorableExchange e = MEXC) \<and>
            (rate_or_zero (fundingRate md) = rate_or_zero (fundingRate bd) \<longrightarrow>
               favorableExchange e = EQUAL)"
    proof (intro ballI impI)
      fix e assume e: "e \<in> set (comparisonTable bRates mRates)" and es: "te_symbol e = s"
      from table_entry_origin [OF e] es bd md
      have "e = comparison_entry s bd md" by auto
      then show "fundingRateDifference e =
              Val (toFixed6 (rate_or_zero (fundingRate md) - rate_or_zero (fundingRate bd))) \<and>
            (rate_or_zero (fundingRate bd) < rate_or_zero (fundingRate md) \<longrightarrow>
               favorableExchange e = BINANCE) \<and>
            (rate_or_zero (fundingRate md) < rate_or_zero (fundingRate bd) \<longrightarrow>
               favorableExchange e = MEXC) \<and>
            (rate_or_zero (fundingRate md) = rate_or_zero (fundingRate bd) \<longrightarrow>
               favorableExchange e = EQUAL)"
        by (simp add: comparison_entry_def Let_def)
    qed
    from ex all show "(\<exists>e. e \<in> set (comparisonTable bRates mRates) \<and> te_symbol e = s) \<and>
         (\<forall>e \<in> set (comparisonTable bRates mRates). te_symbol e = s \<longrightarrow>
            fundingRateDifference e =
              Val (toFixed6 (rate_or_zero (fundingRate md) - rate_or_zero (fundingRate bd))) \<and>
            (rate_or_zero (fundingRate bd) < rate_or_zero (fundingRate md) \<longrightarrow>
               favorableExchange e = BINANCE) \<and>
            (rate_or_zero (fundingRate md) < rate_or_zero (fundingRate bd) \<longrightarrow>
               favorableExchange e = MEXC) \<and>
            (rate_or_zero (fundingRate md) = rate_or_zero (fundingRate bd) \<longrightarrow>
               favorableExchange e = EQUAL))"
      by (rule conjI)
  qed
  show ?thesis
    apply (rule exI [of _ bd], rule exI [of _ md])
    apply (intro conjI bd md main distinct_table_symbols toFixed6_difference)
    using bd' md' by simp_all
qed

theorem comparison_differential_witness:
  "\<exists>e. e \<in> set (comparisonTable [sample_record ''BINANCE'' ''BTC'' (Some 0.01)]
                                [sample_record ''MEXC'' ''BTC'' (Some (- 0.02))]) \<and>
       te_symbol e = ''BTC'' \<and> fundingRateDifference e = Val (- 0.03) \<and>
       favorableExchange e = MEXC"
proof -
  let ?b = "sample_record ''BINANCE'' ''BTC'' (Some 0.01)"
  let ?m = "sample_record ''MEXC'' ''BTC'' (Some (- 0.02))"
  have sb: "''BTC'' \<in> symbol ` set [?b]" by (simp add: sample_record_def)
  have sm: "''BTC'' \<in> symbol ` set [?m]" by (simp add: sample_record_def)
  from comparison_differential [OF sb sm]
  obtain bd md where h:
    "bd \<in> set [?b]" "md \<in> set [?m]"
    "fundingRate bd \<noteq> None \<or> fundingRate md \<noteq> None \<longrightarrow>
       (\<exists>e. e \<in> set (comparisonTable [?b] [?m]) \<and> te_symbol e = ''BTC'') \<and>
       (\<forall>e \<in> set (comparisonTable [?b] [?m]). te_symbol e = ''BTC'' \<longrightarrow>
          fundingRateDifference e =
            Val (toFixed6 (rate_or_zero (fundingRate md) - rate_or_zero (fundingRate bd))) \<and>
          (rate_or_zero (fundingRate bd) < rate_or_zero (fundingRate md) \<longrightarrow>
             favorableExchange e = BINANCE) \<and>
          (rate_or_zero (fundingRate md) < rate_or_zero (fundingRate bd) \<longrightarrow>
             favorableExchange e = MEXC) \<and>
          (rate_or_zero (fundingRate md) = rate_or_zero (fundingRate bd) \<longrightarrow>
             favorableExchange e = EQUAL))"
    by blast
  from h(1) have bd: "bd = ?b" by simp
  from h(2) have md: "md = ?m" by simp
  have rb: "fundingRate ?b = Some 0.01" by (simp add: sample_record_def)
  have rm: "fundingRate ?m = Some (- 0.02)" by (simp add: sample_record_def)
  from h(3) obtain e where e: "e \<in> set (comparisonTable [?b] [?m])" "te_symbol e = ''BTC''"
    and law: "\<forall>e \<in> set (comparisonTable [?b] [?m]). te_symbol e = ''BTC'' \<longrightarrow>
          fundingRateDifference e = Val (toFixed6 (- 0.02 - 0.01)) \<and>
          ((0.01 :: real) < - 0.02 \<longrightarrow> favorableExchange e = BINANCE) \<and>
          ((- 0.02 :: real) < 0.01 \<longrightarrow> favorableExchange e = MEXC) \<and>
          ((- 0.02 :: real) = 0.01 \<longrightarrow> favorableExchange e = EQUAL)"
    unfolding bd md rb rm by (auto simp: rate_or_zero_def)
  from law e have "fundingRateDifference e = Val (toFixed6 (- 0.02 - 0.01))"
    and "favorableExchange e = MEXC" by auto
  moreover have "toFixed6 (- 0.02 - 0.01) = - 0.03" by (simp add: toFixed6_def)
  ultimately show ?thesis using e by auto
qed

text \<open>
  Claim C1 as stated fails on its own example: for Binance = 0.01 and MEXC = -0.02 the
  differential is -0.03 and \<^verbatim>\<open>favorableExchange\<close> is MEXC, the source with the lower rate, not
  Binance.
\<close>

theorem favorable_exchange_counterexample:
  "map favorableExchange
     (comparisonTable [sample_record ''BINANCE'' ''BTC'' (Some 0.01)]
                      [sample_record ''MEXC'' ''BTC'' (Some (- 0.02))]) = [MEXC] \<and>
   map fundingRateDifference
     (comparisonTable [sample_record ''BINANCE'' ''BTC'' (Some 0.01)]
                      [sample_record ''MEXC'' ''BTC'' (Some (- 0.02))]) = [Val (- 0.03)]"
  by (simp add: table_eval)





section \<open>Properties of the handler\<close>







end
